theory Spec2Isabelle
  imports Complex_Main
begin

section \<open>Media ingestion and object lifecycle: a shallow embedding\<close>

text \<open>
  The development follows \<^verbatim>\<open>src/modules/core/controllers/upload.controller.ts\<close>,
  \<^verbatim>\<open>src/modules/core/utils/upload.ts\<close> and \<^verbatim>\<open>src/database/s3-object-store.ts\<close>.
  Strings are \<^typ>\<open>string\<close>; a value that may be \<^verbatim>\<open>undefined\<close> or \<^verbatim>\<open>null\<close> is an
  \<^typ>\<open>'a option\<close>; a thrown exception is \<open>Inl msg\<close> of a sum, \<open>msg\<close> being the
  exception's \<^verbatim>\<open>message\<close>. The third-party libraries (sharp, ffmpeg, the S3 client, the
  MongoDB driver) and the configuration are parameters of the model, so every theorem holds
  for whatever they answer.
\<close>

subsection \<open>JavaScript string primitives\<close>

text \<open>\<^verbatim>\<open>!!s\<close> for a string that may be undefined: defined and not empty.\<close>

definition truthy :: "string option \<Rightarrow> bool" where
  "truthy v = (case v of None \<Rightarrow> False | Some s \<Rightarrow> s \<noteq> [])"

text \<open>\<^verbatim>\<open>!!n\<close> for a number that may be undefined: defined and not zero.\<close>

definition truthy_num :: "nat option \<Rightarrow> bool" where
  "truthy_num v = (case v of None \<Rightarrow> False | Some n \<Rightarrow> n \<noteq> 0)"

text \<open>\<^verbatim>\<open>a || b\<close> on strings that may be undefined.\<close>

definition or_else :: "string option \<Rightarrow> string \<Rightarrow> string" where
  "or_else v d = (case v of None \<Rightarrow> d | Some s \<Rightarrow> if s = [] then d else s)"

definition startsWith :: "string \<Rightarrow> string \<Rightarrow> bool" where
  "startsWith s p = (take (length p) s = p)"

text \<open>\<^verbatim>\<open>s.split(c)\<close> for a one-character separator: never the empty array.\<close>

fun js_split :: "char \<Rightarrow> string \<Rightarrow> string list" where
  "js_split c [] = [[]]"
| "js_split c (x # xs) =
     (if x = c then [] # js_split c xs
      else (case js_split c xs of
              [] \<Rightarrow> [[x]]
            | w # ws \<Rightarrow> (x # w) # ws))"

text \<open>\<^verbatim>\<open>parts.join(sep)\<close>.\<close>

fun js_join :: "string \<Rightarrow> string list \<Rightarrow> string" where
  "js_join sep [] = []"
| "js_join sep [x] = x"
| "js_join sep (x # y # ys) = x @ sep @ js_join sep (y # ys)"

text \<open>\<^verbatim>\<open>s.toLowerCase()\<close> on the ASCII letters; other characters are kept.\<close>

definition lower_char :: "char \<Rightarrow> char" where
  "lower_char c =
     (case map_of (zip ''ABCDEFGHIJKLMNOPQRSTUVWXYZ'' ''abcdefghijklmnopqrstuvwxyz'') c of
        None \<Rightarrow> c
      | Some l \<Rightarrow> l)"

definition toLowerCase :: "string \<Rightarrow> string" where
  "toLowerCase s = map lower_char s"

text \<open>Decimal rendering of a number inside a template string.\<close>

fun show_nat :: "nat \<Rightarrow> string" where
  "show_nat n =
     (if n < 10 then [''0123456789'' ! n]
      else show_nat (n div 10) @ [''0123456789'' ! (n mod 10)])"

subsection \<open>Type classifier (\<^verbatim>\<open>getFileType\<close>, utils/upload.ts)\<close>

definition getFileType :: "string \<Rightarrow> string \<Rightarrow> string" where
  "getFileType mimeType filename =
     (if startsWith mimeType ''image/'' then ''image''
      else if startsWith mimeType ''video/'' then ''video''
      else if startsWith mimeType ''audio/'' then ''audio''
      else if mimeType = ''application/octet-stream'' \<and> filename \<noteq> [] then
        (let ext = last (js_split CHR ''.'' (toLowerCase filename)) in
         if ext \<in> set [''jpg'', ''jpeg'', ''png'', ''gif'', ''webp'', ''bmp'', ''tiff'', ''svg'']
           then ''image''
         else if ext \<in> set [''mp4'', ''avi'', ''mov'', ''wmv'', ''flv'', ''webm'', ''mkv'', ''3gp'']
           then ''video''
         else if ext \<in> set [''mp3'', ''wav'', ''ogg'', ''flac'', ''aac'', ''m4a'', ''wma'']
           then ''audio''
         else if ext \<in> set [''pdf'', ''doc'', ''docx'', ''txt'', ''rtf'', ''xls'', ''xlsx'',
                             ''ppt'', ''pptx'']
           then ''document''
         else ''other'')
      else if startsWith mimeType ''application/pdf''
            \<or> startsWith mimeType ''application/msword''
            \<or> startsWith mimeType ''application/vnd.openxmlformats''
            \<or> startsWith mimeType ''text/''
        then ''document''
      else ''other'')"

subsection \<open>Preview deriver (\<^verbatim>\<open>generateImagePreview\<close>, utils/upload.ts)\<close>

type_synonym buffer = "nat list"

text \<open>What \<^verbatim>\<open>sharp(buffer).metadata()\<close> reports; either dimension may be undefined.\<close>

record image_metadata =
  width :: "nat option"
  height :: "nat option"

text \<open>The arguments of the \<^verbatim>\<open>.resize(w, h, {fit, withoutEnlargement}).jpeg({quality})\<close> pipeline.\<close>

record resize_request =
  resize_width :: nat
  resize_height :: nat
  fit :: string
  withoutEnlargement :: bool
  jpeg_quality :: nat
  failOnError :: bool

text \<open>
  The image library: \<open>sharp_metadata\<close> decodes the header (\<open>None\<close>: it throws),
  \<open>sharp_resize_jpeg\<close> runs the resize and re-encode pipeline to a buffer (\<open>None\<close>: it throws).
\<close>

record sharp_lib =
  sharp_metadata :: "buffer \<Rightarrow> image_metadata option"
  sharp_resize_jpeg :: "buffer \<Rightarrow> resize_request \<Rightarrow> buffer option"

definition MAX_WIDTH :: nat where "MAX_WIDTH = 720"
definition MAX_HEIGHT :: nat where "MAX_HEIGHT = 720"
definition JPEG_QUALITY :: nat where "JPEG_QUALITY = 85"

definition preview_request :: resize_request where
  "preview_request =
     \<lparr>resize_width = MAX_WIDTH, resize_height = MAX_HEIGHT, fit = ''inside'',
      withoutEnlargement = True, jpeg_quality = JPEG_QUALITY, failOnError = True\<rparr>"

text \<open>
  \<^verbatim>\<open>(metadata.width && metadata.width > MAX_WIDTH) || (metadata.height && metadata.height > MAX_HEIGHT)\<close>
\<close>

definition larger_than_max :: "image_metadata \<Rightarrow> bool" where
  "larger_than_max m =
     ((case width m of None \<Rightarrow> False | Some w \<Rightarrow> w \<noteq> 0 \<and> w > MAX_WIDTH)
      \<or> (case height m of None \<Rightarrow> False | Some h \<Rightarrow> h \<noteq> 0 \<and> h > MAX_HEIGHT))"

text \<open>The whole body is inside \<^verbatim>\<open>try\<close>; the \<^verbatim>\<open>catch\<close> returns null.\<close>

definition generateImagePreview :: "sharp_lib \<Rightarrow> buffer \<Rightarrow> string \<Rightarrow> buffer option" where
  "generateImagePreview lib buf mimeType =
     (case sharp_metadata lib buf of
        None \<Rightarrow> None
      | Some metadata \<Rightarrow>
          if larger_than_max metadata then
            (case sharp_resize_jpeg lib buf preview_request of
               None \<Rightarrow> None
             | Some out \<Rightarrow> Some out)
          else None)"

text \<open>
  \<^verbatim>\<open>extractVideoThumbnail\<close>: the same pipeline with \<^verbatim>\<open>failOnError: false\<close>; its
  \<^verbatim>\<open>catch\<close> throws a new error.
\<close>

definition extractVideoThumbnail :: "sharp_lib \<Rightarrow> buffer \<Rightarrow> string + buffer" where
  "extractVideoThumbnail lib buf =
     (case sharp_resize_jpeg lib buf (preview_request\<lparr>failOnError := False\<rparr>) of
        None \<Rightarrow> Inl ''Failed to read video thumbnail''
      | Some thumbnail \<Rightarrow> Inr thumbnail)"

subsection \<open>Data model\<close>

text \<open>\<^verbatim>\<open>MediaMetadata\<close> (utils/upload.ts).\<close>

record media_metadata =
  meta_mimeType :: "string option"
  meta_width :: "nat option"
  meta_height :: "nat option"
  meta_duration :: "real option"

text \<open>
  \<^verbatim>\<open>FileMetadata\<close> (models/upload.model.ts). \<open>oid\<close> is \<^verbatim>\<open>_id\<close>, \<open>ftype\<close> is \<^verbatim>\<open>type\<close>
  and \<open>fsize\<close> is \<^verbatim>\<open>size\<close>; the fields of \<^verbatim>\<open>details\<close> carry the prefix \<open>d_\<close>. The
  optional \<^verbatim>\<open>id\<close> is never stored and is left out.
\<close>

record file_details =
  d_src :: string
  d_duration :: "real option"
  d_width :: "nat option"
  d_height :: "nat option"
  d_preview :: string

record FileMetadata =
  oid :: "string option"
  filename :: string
  src :: string
  preview :: "string option"
  mimeType :: string
  ftype :: string
  details :: file_details
  fsize :: nat
  s3Key :: string
  uploadedAt :: int
  uploadedBy :: "string option"

text \<open>The configuration (\<^verbatim>\<open>configs/env\<close> and \<^verbatim>\<open>process.env\<close>).\<close>

record env =
  S3_COMP_BUCKET_URL :: "string option"
  S3_COMP_BUCKET_BKT :: string
  S3_COMP_VIRT_HOST :: string
  S3_BUCKET_NAME :: string

text \<open>What \<^verbatim>\<open>ffprobe\<close> reports: the streams with their dimensions, and the format's duration.\<close>

record probe_info =
  streams :: "image_metadata list"
  format_duration :: "real option"

text \<open>
  The tools of one request: the image library; \<^verbatim>\<open>fileTypeFromBuffer\<close> (\<open>Inl\<close>: it rejects;
  \<open>Inr None\<close>: no type detected); \<^verbatim>\<open>sizeOf\<close> (\<open>None\<close>: it throws); \<^verbatim>\<open>ffprobe\<close> on the
  temporary copy of the buffer (\<open>None\<close>: writing the copy or probing it throws); the ffmpeg
  screenshot of the temporary copy (\<open>None\<close>: writing the copy fails, ffmpeg reports an error,
  or the output cannot be read); the fresh \<^verbatim>\<open>uuidv4()\<close>; and the clock, as
  \<^verbatim>\<open>toISOString()\<close> and as a timestamp.
\<close>

record tools =
  sharp :: sharp_lib
  fileTypeFromBuffer :: "buffer \<Rightarrow> string + string option"
  sizeOf :: "buffer \<Rightarrow> image_metadata option"
  ffprobe :: "buffer \<Rightarrow> probe_info option"
  ffmpeg_screenshot :: "buffer \<Rightarrow> buffer option"
  uuidv4 :: string
  now_iso :: string
  now :: int

text \<open>
  The object store's answers: a put or a delete of a key throws the given message or succeeds;
  a batch delete throws as a whole, or reports each key under \<^verbatim>\<open>Deleted\<close> or \<^verbatim>\<open>Errors\<close>.
\<close>

record s3_behaviour =
  s3_put_error :: "string \<Rightarrow> string option"
  s3_delete_error :: "string \<Rightarrow> string option"
  s3_batch_error :: "string list \<Rightarrow> string option"

text \<open>
  The metadata store's answers: each operation throws the given message or succeeds;
  \<open>insertedId\<close> is the identifier the next insert assigns; \<open>isValid\<close> and \<open>ObjectId\<close> are
  the driver's \<^verbatim>\<open>ObjectId.isValid\<close> and \<^verbatim>\<open>new ObjectId\<close>; \<open>regex_test pat opts s\<close> is the
  store's \<^verbatim>\<open>$regex\<close> match; \<open>parse_date\<close> is \<^verbatim>\<open>new Date(s)\<close> (\<open>None\<close>: Invalid Date).
\<close>

record mongo_behaviour =
  insert_error :: "string option"
  insertedId :: string
  find_error :: "string option"
  delete_error :: "string option"
  isValid :: "string \<Rightarrow> bool"
  ObjectId :: "string \<Rightarrow> string"
  regex_test :: "string \<Rightarrow> string \<Rightarrow> string \<Rightarrow> bool"
  parse_date :: "string \<Rightarrow> int option"

record world =
  config :: env
  tool :: tools
  s3 :: s3_behaviour
  mongo :: mongo_behaviour

text \<open>Calls issued to the two stores, in the order they are made, with their outcome.\<close>

datatype event =
    S3PutObject string string string bool
  | S3DeleteObject string string bool
  | S3DeleteObjects string "string list" bool
  | DbInsertOne bool
  | DbFindOne bool
  | DbFind bool
  | DbDeleteOne bool
  | DbDeleteMany bool

text \<open>
  The state: the objects present in the store under (bucket, key), the \<^verbatim>\<open>files\<close> collection,
  and the calls made so far.
\<close>

record state =
  objects :: "string \<times> string \<rightharpoonup> buffer"
  files :: "FileMetadata list"
  trace :: "event list"

text \<open>The entry of \<^verbatim>\<open>deletedFiles\<close> in the bulk response.\<close>

record deleted_summary =
  ds_id :: "string option"
  ds_filename :: string
  ds_s3Key :: string
  ds_type :: string

text \<open>
  Responses: \<open>ErrorResponse status error message\<close> is every \<^verbatim>\<open>{error, message}\<close> body,
  the 500 ones included (there \<^verbatim>\<open>error\<close> is the exception's message).
\<close>

datatype response =
    ErrorResponse nat string string
  | InvalidIds nat string string "string list"
  | UploadCreated FileMetadata string
  | FileDeleted string "string option" string string "string list"
  | BulkDeleted string nat nat "deleted_summary list"

text \<open>The multer file and the request as the handlers read it.\<close>

record upload_file =
  originalname :: string
  mimetype :: string
  size_bytes :: nat
  file_buffer :: buffer

record upload_request =
  user_id :: "string option"
  req_file :: "upload_file option"

subsection \<open>Metadata prober and video poster (utils/upload.ts)\<close>

text \<open>
  \<^verbatim>\<open>extractMediaMetadata\<close>. The type detection is outside every \<^verbatim>\<open>try\<close>, so its rejection
  is the function's. The in-memory size is taken when both dimensions are truthy; otherwise,
  also when \<^verbatim>\<open>sizeOf\<close> throws, the buffer is probed through a temporary file, and a failure
  there leaves the fields absent. The temporary file itself is not part of the model.
\<close>

definition extractMediaMetadata :: "tools \<Rightarrow> buffer \<Rightarrow> string + media_metadata" where
  "extractMediaMetadata t buf =
     (case fileTypeFromBuffer t buf of
        Inl msg \<Rightarrow> Inl msg
      | Inr fileType \<Rightarrow>
          (let metadata = \<lparr>meta_mimeType = fileType, meta_width = None, meta_height = None,
                           meta_duration = None\<rparr>;
               dimensions =
                 (case sizeOf t buf of
                    None \<Rightarrow> None
                  | Some d \<Rightarrow> if truthy_num (width d) \<and> truthy_num (height d) then Some d
                              else None)
           in
           case dimensions of
             Some d \<Rightarrow> Inr (metadata\<lparr>meta_width := width d, meta_height := height d\<rparr>)
           | None \<Rightarrow>
               (case ffprobe t buf of
                  None \<Rightarrow> Inr metadata
                | Some info \<Rightarrow>
                    (let sized =
                       (case find (\<lambda>s. truthy_num (width s) \<and> truthy_num (height s))
                               (streams info) of
                          None \<Rightarrow> metadata
                        | Some videoStream \<Rightarrow>
                            metadata\<lparr>meta_width := width videoStream,
                                     meta_height := height videoStream\<rparr>)
                     in
                     Inr (case format_duration info of
                            None \<Rightarrow> sized
                          | Some d \<Rightarrow> if d = 0 then sized
                                      else sized\<lparr>meta_duration := Some d\<rparr>)))))"

text \<open>
  \<^verbatim>\<open>generateVideoPoster\<close>: every path, the setup's \<^verbatim>\<open>catch\<close> and the two ffmpeg handlers,
  resolves to the bytes of the screenshot or to null.
\<close>

definition generateVideoPoster :: "tools \<Rightarrow> buffer \<Rightarrow> buffer option" where
  "generateVideoPoster t buf =
     (case ffmpeg_screenshot t buf of
        None \<Rightarrow> None
      | Some screenshotBuffer \<Rightarrow> Some screenshotBuffer)"

subsection \<open>Object store gateway (\<^verbatim>\<open>uploadToS3\<close>, database/s3-object-store.ts)\<close>

definition log_event :: "event \<Rightarrow> state \<Rightarrow> state" where
  "log_event e st = st\<lparr>trace := trace st @ [e]\<rparr>"

text \<open>
  Returns null when no endpoint is configured, without calling the store; rethrows the
  store's error; otherwise the public URL of the key.
\<close>

definition uploadToS3 ::
  "world \<Rightarrow> buffer \<Rightarrow> string \<Rightarrow> string \<Rightarrow> state \<Rightarrow> (string + string option) \<times> state" where
  "uploadToS3 w buf key contentType st =
     (let bucket = S3_COMP_BUCKET_BKT (config w) in
      if \<not> truthy (S3_COMP_BUCKET_URL (config w)) then (Inr None, st)
      else
        (case s3_put_error (s3 w) key of
           Some msg \<Rightarrow> (Inl msg, log_event (S3PutObject bucket key contentType False) st)
         | None \<Rightarrow>
             (Inr (Some (S3_COMP_VIRT_HOST (config w) @ ''/'' @ key)),
              log_event (S3PutObject bucket key contentType True)
                (st\<lparr>objects := (objects st)((bucket, key) \<mapsto> buf)\<rparr>))))"

subsection \<open>Ingestion orchestrator (\<^verbatim>\<open>uploadFile\<close>, upload.controller.ts)\<close>

definition MAX_FILE_SIZE :: nat where
  "MAX_FILE_SIZE = 100 * 1024 * 1024"

definition unauthorized :: response where
  "unauthorized = ErrorResponse 401 ''UNAUTHORIZED'' ''User authentication required''"

text \<open>
  Lines 84 to 108: the preview buffer, key and content type by file type. For a video the
  fallback \<^verbatim>\<open>extractVideoThumbnail\<close> may throw.
\<close>

definition uploadFile_preview ::
  "world \<Rightarrow> string \<Rightarrow> buffer \<Rightarrow> string \<Rightarrow> string \<Rightarrow> string
     \<Rightarrow> string + (buffer option \<times> string option \<times> string option)" where
  "uploadFile_preview w fileType buf finalMimeType baseKey fileId =
     (if fileType = ''image'' then
        (case generateImagePreview (sharp (tool w)) buf finalMimeType of
           None \<Rightarrow> Inr (None, None, None)
         | Some previewBuffer \<Rightarrow>
             Inr (Some previewBuffer, Some (baseKey @ ''/preview-'' @ fileId @ ''.jpg''),
                  Some ''image/jpeg''))
      else if fileType = ''video'' then
        (case generateVideoPoster (tool w) buf of
           Some previewBuffer \<Rightarrow>
             Inr (Some previewBuffer, Some (baseKey @ ''/poster-'' @ fileId @ ''.jpg''),
                  Some ''image/jpeg'')
         | None \<Rightarrow>
             (case extractVideoThumbnail (sharp (tool w)) buf of
                Inl msg \<Rightarrow> Inl msg
              | Inr previewBuffer \<Rightarrow>
                  Inr (Some previewBuffer, Some (baseKey @ ''/poster-'' @ fileId @ ''.jpg''),
                       Some ''image/jpeg'')))
      else Inr (None, None, None))"

text \<open>
  Lines 120 to 128: the derivative is put when the type is not audio and buffer, key and
  content type are all truthy; audio takes the original's URL; otherwise the URL stays null.
\<close>

definition uploadFile_preview_put ::
  "world \<Rightarrow> string \<Rightarrow> buffer option \<times> string option \<times> string option \<Rightarrow> string
     \<Rightarrow> state \<Rightarrow> (string + string option) \<times> state" where
  "uploadFile_preview_put w fileType p originalUrl st =
     (case p of
        (Some previewBuffer, Some previewKey, Some previewMimeType) \<Rightarrow>
          if fileType \<noteq> ''audio'' \<and> previewKey \<noteq> [] \<and> previewMimeType \<noteq> [] then
            uploadToS3 w previewBuffer previewKey previewMimeType st
          else if fileType = ''audio'' then (Inr (Some originalUrl), st)
          else (Inr None, st)
      | _ \<Rightarrow>
          if fileType = ''audio'' then (Inr (Some originalUrl), st)
          else (Inr None, st))"

text \<open>Lines 130 to 148: the document handed to \<^verbatim>\<open>insertOne\<close>.\<close>

definition uploadFile_doc ::
  "world \<Rightarrow> string \<Rightarrow> upload_file \<Rightarrow> media_metadata \<Rightarrow> string \<Rightarrow> string \<Rightarrow> string
     \<Rightarrow> string \<Rightarrow> string option \<Rightarrow> FileMetadata" where
  "uploadFile_doc w userId f meta finalMimeType fileType key originalUrl previewUrl =
     \<lparr>oid = None,
      filename = originalname f,
      src = originalUrl,
      preview = Some (or_else previewUrl originalUrl),
      mimeType = finalMimeType,
      ftype = fileType,
      details = \<lparr>d_src = originalUrl, d_duration = meta_duration meta,
                 d_width = meta_width meta, d_height = meta_height meta,
                 d_preview = or_else previewUrl originalUrl\<rparr>,
      fsize = size_bytes f,
      s3Key = key,
      uploadedAt = now (tool w),
      uploadedBy = Some userId\<rparr>"

text \<open>The \<^verbatim>\<open>try\<close> block, lines 64 to 156: \<open>Inl msg\<close> is an exception reaching the \<^verbatim>\<open>catch\<close>.\<close>

definition uploadFile_try ::
  "world \<Rightarrow> string \<Rightarrow> upload_file \<Rightarrow> string \<Rightarrow> string \<Rightarrow> string \<Rightarrow> state
     \<Rightarrow> (string + response) \<times> state" where
  "uploadFile_try w userId f baseKey fileId key st =
     (case extractMediaMetadata (tool w) (file_buffer f) of
        Inl msg \<Rightarrow> (Inl msg, st)
      | Inr meta \<Rightarrow>
          (let finalMimeType = or_else (meta_mimeType meta) (mimetype f);
               fileType = getFileType finalMimeType (originalname f)
           in
           if fileType \<notin> set [''image'', ''video'', ''audio''] then
             (Inr (ErrorResponse 400 ''UNSUPPORTED_MEDIA_TYPE''
                     ''File type not supported for preview generation''), st)
           else
             (case uploadFile_preview w fileType (file_buffer f) finalMimeType baseKey fileId of
                Inl msg \<Rightarrow> (Inl msg, st)
              | Inr p \<Rightarrow>
                  (case uploadToS3 w (file_buffer f) key finalMimeType st of
                     (Inl msg, st1) \<Rightarrow> (Inl msg, st1)
                   | (Inr None, st1) \<Rightarrow> (Inl ''Media upload failed'', st1)
                   | (Inr (Some originalUrl), st1) \<Rightarrow>
                       if originalUrl = [] then (Inl ''Media upload failed'', st1)
                       else
                         (case uploadFile_preview_put w fileType p originalUrl st1 of
                            (Inl msg, st2) \<Rightarrow> (Inl msg, st2)
                          | (Inr previewUrl, st2) \<Rightarrow>
                              (let doc = uploadFile_doc w userId f meta finalMimeType fileType
                                           key originalUrl previewUrl
                               in
                               case insert_error (mongo w) of
                                 Some msg \<Rightarrow> (Inl msg, log_event (DbInsertOne False) st2)
                               | None \<Rightarrow>
                                   (let stored = doc\<lparr>oid := Some (insertedId (mongo w))\<rparr> in
                                    (Inr (UploadCreated stored (insertedId (mongo w))),
                                     log_event (DbInsertOne True)
                                       (st2\<lparr>files := files st2 @ [stored]\<rparr>)))))))))"

definition uploadFile :: "world \<Rightarrow> upload_request \<Rightarrow> state \<Rightarrow> response \<times> state" where
  "uploadFile w req st =
     (case user_id req of
        None \<Rightarrow> (unauthorized, st)
      | Some userId \<Rightarrow>
          if userId = [] then (unauthorized, st)
          else
            (case req_file req of
               None \<Rightarrow> (ErrorResponse 400 ''NO_FILE'' ''No file uploaded'', st)
             | Some f \<Rightarrow>
                 if size_bytes f > MAX_FILE_SIZE then
                   (ErrorResponse 400 ''FILE_TOO_LARGE''
                      (''File size exceeds '' @ show_nat (MAX_FILE_SIZE div (1024 * 1024))
                         @ ''MB limit''), st)
                 else
                   (let timestamp = hd (js_split CHR ''T'' (now_iso (tool w)));
                        fileId = uuidv4 (tool w);
                        baseKey = ''uploads/'' @ userId @ ''/'' @ timestamp;
                        key = baseKey @ ''/'' @ fileId @ ''-'' @ originalname f
                    in
                    case uploadFile_try w userId f baseKey fileId key st of
                      (Inl msg, st') \<Rightarrow> (ErrorResponse 500 msg ''Upload failed'', st')
                    | (Inr resp, st') \<Rightarrow> (resp, st'))))"

subsection \<open>Object key scheme (\<^verbatim>\<open>getS3KeysForFile\<close>, upload.controller.ts)\<close>

definition getS3KeysForFile :: "FileMetadata \<Rightarrow> string list" where
  "getS3KeysForFile f =
     (let keys = [s3Key f];
          pathParts = js_split CHR ''/'' (s3Key f);
          fname = last pathParts;
          fileId = hd (js_split CHR ''-'' fname);
          basePath = js_join ''/'' (butlast pathParts)
      in
      if ftype f = ''image'' \<and> truthy (preview f) \<and> preview f \<noteq> Some (src f) then
        keys @ [basePath @ ''/preview-'' @ fileId @ ''.jpg'']
      else if ftype f = ''video'' \<and> truthy (preview f) then
        keys @ [basePath @ ''/poster-'' @ fileId @ ''.jpg'']
      else keys)"

subsection \<open>Lifecycle manager (\<^verbatim>\<open>deleteFile\<close>, \<^verbatim>\<open>bulkDeleteFiles\<close>, upload.controller.ts)\<close>

text \<open>
  One \<^verbatim>\<open>DeleteObjectCommand\<close> inside its own \<^verbatim>\<open>try\<close>: a failure is logged and
  swallowed. The commands are issued in the order of the keys and all are settled before
  the handler goes on.
\<close>

definition delete_object :: "world \<Rightarrow> string \<Rightarrow> state \<Rightarrow> state" where
  "delete_object w key st =
     (let bucket = S3_COMP_BUCKET_BKT (config w) in
      case s3_delete_error (s3 w) key of
        Some msg \<Rightarrow> log_event (S3DeleteObject bucket key False) st
      | None \<Rightarrow>
          log_event (S3DeleteObject bucket key True)
            (st\<lparr>objects := (objects st)((bucket, key) := None)\<rparr>))"

text \<open>\<^verbatim>\<open>deleteOne(filter)\<close>: the first matching document is removed.\<close>

fun delete_one :: "('a \<Rightarrow> bool) \<Rightarrow> 'a list \<Rightarrow> 'a list" where
  "delete_one P [] = []"
| "delete_one P (x # xs) = (if P x then xs else x # delete_one P xs)"

definition deleteFile_try ::
  "world \<Rightarrow> string \<Rightarrow> string \<Rightarrow> state \<Rightarrow> (string + response) \<times> state" where
  "deleteFile_try w userId fileId st =
     (let owned = (\<lambda>f. oid f = Some (ObjectId (mongo w) fileId) \<and> uploadedBy f = Some userId) in
      case find_error (mongo w) of
        Some msg \<Rightarrow> (Inl msg, log_event (DbFindOne False) st)
      | None \<Rightarrow>
          (let st0 = log_event (DbFindOne True) st in
           case find owned (files st0) of
             None \<Rightarrow>
               (Inr (ErrorResponse 404 ''FILE_NOT_FOUND''
                       ''File not found or you do not have permission to delete it''), st0)
           | Some f \<Rightarrow>
               (let s3Keys = getS3KeysForFile f;
                    st1 = fold (delete_object w) s3Keys st0
                in
                case delete_error (mongo w) of
                  Some msg \<Rightarrow> (Inl msg, log_event (DbDeleteOne False) st1)
                | None \<Rightarrow>
                    (Inr (FileDeleted ''File deleted successfully'' (oid f) (filename f)
                            (s3Key f) s3Keys),
                     log_event (DbDeleteOne True)
                       (st1\<lparr>files := delete_one owned (files st1)\<rparr>)))))"

definition deleteFile ::
  "world \<Rightarrow> string option \<Rightarrow> string option \<Rightarrow> state \<Rightarrow> response \<times> state" where
  "deleteFile w user fileIdParam st =
     (case user of
        None \<Rightarrow> (unauthorized, st)
      | Some userId \<Rightarrow>
          if userId = [] then (unauthorized, st)
          else if \<not> truthy fileIdParam \<or> \<not> isValid (mongo w) (or_else fileIdParam [])
            then (ErrorResponse 400 ''INVALID_FILE_ID'' ''Valid file ID required'', st)
          else
            (case deleteFile_try w userId (or_else fileIdParam []) st of
               (Inl msg, st') \<Rightarrow> (ErrorResponse 500 msg ''Delete failed'', st')
             | (Inr resp, st') \<Rightarrow> (resp, st')))"

definition MAX_BULK_DELETE :: nat where
  "MAX_BULK_DELETE = 100"

definition chunkSize :: nat where
  "chunkSize = 1000"

text \<open>
  The loop over \<^verbatim>\<open>allS3Keys\<close> in chunks. A chunk whose command throws is skipped; otherwise
  the result, with the keys the store reports under \<^verbatim>\<open>Deleted\<close>, is pushed to
  \<^verbatim>\<open>deleteResults\<close>. The bucket is \<^verbatim>\<open>process.env.S3_BUCKET_NAME\<close>.
\<close>

function delete_chunks ::
  "world \<Rightarrow> string list \<Rightarrow> nat \<Rightarrow> string list list \<Rightarrow> state \<Rightarrow> string list list \<times> state" where
  "delete_chunks w allS3Keys i deleteResults st =
     (if i < length allS3Keys then
        (let chunk = take chunkSize (drop i allS3Keys);
             bucket = S3_BUCKET_NAME (config w)
         in
         case s3_batch_error (s3 w) chunk of
           Some msg \<Rightarrow>
             delete_chunks w allS3Keys (i + chunkSize) deleteResults
               (log_event (S3DeleteObjects bucket chunk False) st)
         | None \<Rightarrow>
             (let deleted = filter (\<lambda>k. s3_delete_error (s3 w) k = None) chunk in
              delete_chunks w allS3Keys (i + chunkSize) (deleteResults @ [deleted])
                (log_event (S3DeleteObjects bucket chunk True)
                   (st\<lparr>objects := fold (\<lambda>k m. m((bucket, k) := None)) deleted (objects st)\<rparr>))))
      else (deleteResults, st))"
  by pat_completeness auto
termination
  by (relation "measure (\<lambda>(w, allS3Keys, i, deleteResults, st). length allS3Keys - i)")
     (auto simp: chunkSize_def)

definition summary :: "FileMetadata \<Rightarrow> deleted_summary" where
  "summary f = \<lparr>ds_id = oid f, ds_filename = filename f, ds_s3Key = s3Key f, ds_type = ftype f\<rparr>"

text \<open>The documents of the requester whose \<^verbatim>\<open>_id\<close> is among the given ones.\<close>

definition owned_among :: "string \<Rightarrow> string list \<Rightarrow> FileMetadata \<Rightarrow> bool" where
  "owned_among userId ids f =
     ((case oid f of None \<Rightarrow> False | Some i \<Rightarrow> i \<in> set ids) \<and> uploadedBy f = Some userId)"

definition bulkDeleteFiles_try ::
  "world \<Rightarrow> string \<Rightarrow> string list \<Rightarrow> state \<Rightarrow> (string + response) \<times> state" where
  "bulkDeleteFiles_try w userId validFileIds st =
     (case find_error (mongo w) of
        Some msg \<Rightarrow> (Inl msg, log_event (DbFind False) st)
      | None \<Rightarrow>
          (let st0 = log_event (DbFind True) st;
               found = filter (owned_among userId (map (ObjectId (mongo w)) validFileIds))
                         (files st0)
           in
           if found = [] then
             (Inr (ErrorResponse 404 ''NO_FILES_FOUND''
                     ''No files found or you do not have permission to delete them''), st0)
           else
             (let allS3Keys = concat (map getS3KeysForFile found) in
              case delete_chunks w allS3Keys 0 [] st0 of
                (deleteResults, st1) \<Rightarrow>
                  (case delete_error (mongo w) of
                     Some msg \<Rightarrow> (Inl msg, log_event (DbDeleteMany False) st1)
                   | None \<Rightarrow>
                       (let foundIds = concat (map (\<lambda>f. case oid f of None \<Rightarrow> []
                                                          | Some i \<Rightarrow> [i]) found);
                            target = owned_among userId foundIds;
                            deletedCount = length (filter target (files st1));
                            successfulS3Deletes =
                              foldl (\<lambda>acc result. acc + length result) 0 deleteResults
                        in
                        (Inr (BulkDeleted (show_nat deletedCount @ '' files deleted successfully'')
                                deletedCount successfulS3Deletes (map summary found)),
                         log_event (DbDeleteMany True)
                           (st1\<lparr>files := filter (\<lambda>f. \<not> target f) (files st1)\<rparr>)))))))"

text \<open>
  \<open>body\<close> is \<^verbatim>\<open>req.body.fileIds\<close>: \<open>None\<close> when it is not an array; the elements are
  taken to be strings.
\<close>

definition bulkDeleteFiles ::
  "world \<Rightarrow> string option \<Rightarrow> string list option \<Rightarrow> state \<Rightarrow> response \<times> state" where
  "bulkDeleteFiles w user body st =
     (case user of
        None \<Rightarrow> (unauthorized, st)
      | Some userId \<Rightarrow>
          if userId = [] then (unauthorized, st)
          else
            (case body of
               None \<Rightarrow> (ErrorResponse 400 ''INVALID_REQUEST'' ''Array of file IDs required'', st)
             | Some fileIds \<Rightarrow>
                 if length fileIds = 0 then
                   (ErrorResponse 400 ''INVALID_REQUEST'' ''Array of file IDs required'', st)
                 else if length fileIds > MAX_BULK_DELETE then
                   (ErrorResponse 400 ''TOO_MANY_FILES''
                      (''Maximum '' @ show_nat MAX_BULK_DELETE
                         @ '' files can be deleted at once''), st)
                 else
                   (let validFileIds = filter (isValid (mongo w)) fileIds in
                    if length validFileIds \<noteq> length fileIds then
                      (InvalidIds 400 ''INVALID_FILE_IDS'' ''Some file IDs are invalid''
                         (filter (\<lambda>i. \<not> isValid (mongo w) i) fileIds), st)
                    else
                      (case bulkDeleteFiles_try w userId validFileIds st of
                         (Inl msg, st') \<Rightarrow> (ErrorResponse 500 msg ''Bulk delete failed'', st')
                       | (Inr resp, st') \<Rightarrow> (resp, st')))))"

subsection \<open>Query engine (the filter of \<^verbatim>\<open>searchFiles\<close>, upload.controller.ts)\<close>

text \<open>The values of a stored document, as the metadata store compares them.\<close>

datatype bson = BId string | BString string | BNumber nat | BDate int | BInvalidDate | BObject

text \<open>
  The stored document of a record, key by key: the keys of the object literal handed to
  \<^verbatim>\<open>insertOne\<close> in \<^verbatim>\<open>uploadFile\<close>, and \<^verbatim>\<open>_id\<close>.
\<close>

definition document :: "FileMetadata \<Rightarrow> string \<rightharpoonup> bson" where
  "document f =
     map_of
       ((case oid f of None \<Rightarrow> [] | Some i \<Rightarrow> [(''_id'', BId i)])
        @ [(''filename'', BString (filename f)),
           (''mimeType'', BString (mimeType f)),
           (''type'', BString (ftype f)),
           (''size'', BNumber (fsize f)),
           (''s3Key'', BString (s3Key f)),
           (''src'', BString (src f))]
        @ (case preview f of None \<Rightarrow> [] | Some p \<Rightarrow> [(''preview'', BString p)])
        @ [(''details'', BObject)]
        @ (case uploadedBy f of None \<Rightarrow> [] | Some u \<Rightarrow> [(''uploadedBy'', BString u)])
        @ [(''uploadedAt'', BDate (uploadedAt f))])"

text \<open>
  A condition on one field: equality, \<^verbatim>\<open>{$regex, $options}\<close>, or a range with optional
  \<^verbatim>\<open>$gte\<close> and \<^verbatim>\<open>$lte\<close>.
\<close>

datatype condition = Equals bson | Regex string string | Range "bson option" "bson option"

text \<open>
  The criteria of a search, typed as the \<^verbatim>\<open>SearchQuery\<close> interface declares them; page, limit
  and sort order do not enter the filter.
\<close>

record search_query =
  q_query :: "string option"
  q_type :: "string option"
  q_mimeType :: "string option"
  q_minSize :: "nat option"
  q_maxSize :: "nat option"
  q_startDate :: "string option"
  q_endDate :: "string option"

definition to_date :: "mongo_behaviour \<Rightarrow> string \<Rightarrow> bson" where
  "to_date m s = (case parse_date m s of None \<Rightarrow> BInvalidDate | Some t \<Rightarrow> BDate t)"

text \<open>Lines 192 to 222: the filter object, as the list of its keys with their conditions.\<close>

definition searchFiles_filter ::
  "mongo_behaviour \<Rightarrow> string \<Rightarrow> search_query \<Rightarrow> (string \<times> condition) list" where
  "searchFiles_filter m userId q =
     [(''uploadedBy'', Equals (BString userId))]
     @ (if truthy (q_query q) then [(''originalName'', Regex (or_else (q_query q) []) ''i'')]
        else [])
     @ (if truthy (q_type q) then [(''type'', Equals (BString (or_else (q_type q) [])))] else [])
     @ (if truthy (q_mimeType q)
          then [(''mimeType'', Equals (BString (or_else (q_mimeType q) [])))] else [])
     @ (if truthy_num (q_minSize q) \<or> truthy_num (q_maxSize q) then
          [(''size'',
            Range (if truthy_num (q_minSize q) then map_option BNumber (q_minSize q) else None)
                  (if truthy_num (q_maxSize q) then map_option BNumber (q_maxSize q) else None))]
        else [])
     @ (if truthy (q_startDate q) \<or> truthy (q_endDate q) then
          [(''uploadedAt'',
            Range (if truthy (q_startDate q) then map_option (to_date m) (q_startDate q)
                   else None)
                  (if truthy (q_endDate q) then map_option (to_date m) (q_endDate q)
                   else None))]
        else [])"

text \<open>
  The metadata store's matching. A condition on a key the document does not have never
  holds; a regular expression only matches a string; an order comparison only holds between
  two numbers or two valid dates.
\<close>

fun bson_le :: "bson \<Rightarrow> bson \<Rightarrow> bool" where
  "bson_le (BNumber a) (BNumber b) = (a \<le> b)"
| "bson_le (BDate a) (BDate b) = (a \<le> b)"
| "bson_le _ _ = False"

fun holds :: "mongo_behaviour \<Rightarrow> condition \<Rightarrow> bson option \<Rightarrow> bool" where
  "holds m c None = False"
| "holds m (Equals v) (Some x) = (x = v)"
| "holds m (Regex pat opts) (Some (BString s)) = regex_test m pat opts s"
| "holds m (Regex pat opts) (Some _) = False"
| "holds m (Range lo hi) (Some x) =
     ((case lo of None \<Rightarrow> True | Some l \<Rightarrow> bson_le l x)
      \<and> (case hi of None \<Rightarrow> True | Some h \<Rightarrow> bson_le x h))"

definition matches :: "mongo_behaviour \<Rightarrow> (string \<times> condition) list \<Rightarrow> FileMetadata \<Rightarrow> bool" where
  "matches m flt f = list_all (\<lambda>(k, c). holds m c (document f k)) flt"

text \<open>
  The documents that \<^verbatim>\<open>find(filter)\<close> and \<^verbatim>\<open>countDocuments(filter)\<close> of
  \<^verbatim>\<open>searchFiles\<close> range over; sorting, skip and limit only order and cut this list.
\<close>

definition searchFiles_matching :: "world \<Rightarrow> string \<Rightarrow> search_query \<Rightarrow> state \<Rightarrow> FileMetadata list" where
  "searchFiles_matching w userId q st =
     filter (matches (mongo w) (searchFiles_filter (mongo w) userId q)) (files st)"

text \<open>The reading of the specification: the text occurs in the name, letter case ignored.\<close>

definition contains_ignoring_case :: "string \<Rightarrow> string \<Rightarrow> bool" where
  "contains_ignoring_case text name =
     list_ex (\<lambda>i. take (length text) (drop i (toLowerCase name)) = toLowerCase text)
       [0 ..< Suc (length name)]"

text \<open>The reading of the specification: both dimensions are known and exceed the bound.\<close>

definition both_dimensions_exceed :: "image_metadata \<Rightarrow> bool" where
  "both_dimensions_exceed m =
     ((case width m of None \<Rightarrow> False | Some w \<Rightarrow> w > 720)
      \<and> (case height m of None \<Rightarrow> False | Some h \<Rightarrow> h > 720))"

text \<open>The keys of the puts that succeeded, in order.\<close>

definition written_keys :: "state \<Rightarrow> string list" where
  "written_keys st =
     concat (map (\<lambda>e. case e of S3PutObject bucket key contentType True \<Rightarrow> [key] | _ \<Rightarrow> [])
               (trace st))"

subsection \<open>A sample deployment\<close>

definition sample_config :: env where
  "sample_config =
     \<lparr>S3_COMP_BUCKET_URL = Some ''http://s3.local'', S3_COMP_BUCKET_BKT = ''media'',
      S3_COMP_VIRT_HOST = ''http://cdn.local'', S3_BUCKET_NAME = ''media''\<rparr>"

text \<open>An image library that reads every buffer as a picture of the given size.\<close>

definition sample_sharp :: "nat \<Rightarrow> nat \<Rightarrow> sharp_lib" where
  "sample_sharp w h =
     \<lparr>sharp_metadata = (\<lambda>b. Some \<lparr>width = Some w, height = Some h\<rparr>),
      sharp_resize_jpeg = (\<lambda>b r. Some [255, 216, 255])\<rparr>"

definition sample_tools :: "string \<Rightarrow> tools" where
  "sample_tools mime =
     \<lparr>sharp = sample_sharp 1500 1000,
      fileTypeFromBuffer = (\<lambda>b. Inr (Some mime)),
      sizeOf = (\<lambda>b. None),
      ffprobe = (\<lambda>b. None),
      ffmpeg_screenshot = (\<lambda>b. Some [255, 216, 255]),
      uuidv4 = ''123e4567-e89b-42d3-a456-426614174000'',
      now_iso = ''2024-01-01T10:00:00.000Z'',
      now = 1704103200000\<rparr>"

definition sample_s3 :: s3_behaviour where
  "sample_s3 =
     \<lparr>s3_put_error = (\<lambda>k. None), s3_delete_error = (\<lambda>k. None), s3_batch_error = (\<lambda>ks. None)\<rparr>"

definition sample_mongo :: mongo_behaviour where
  "sample_mongo =
     \<lparr>insert_error = None, insertedId = ''65a000000000000000000001'', find_error = None,
      delete_error = None, isValid = (\<lambda>s. length s = 24), ObjectId = (\<lambda>s. s),
      regex_test = (\<lambda>pat opts s. contains_ignoring_case pat s),
      parse_date = (\<lambda>s. None)\<rparr>"

definition sample_world :: "string \<Rightarrow> world" where
  "sample_world mime =
     \<lparr>config = sample_config, tool = sample_tools mime, s3 = sample_s3, mongo = sample_mongo\<rparr>"

definition empty_state :: state where
  "empty_state = \<lparr>objects = Map.empty, files = [], trace = []\<rparr>"

definition sample_request :: "string \<Rightarrow> string \<Rightarrow> upload_request" where
  "sample_request name mime =
     \<lparr>user_id = Some ''u1'',
      req_file = Some \<lparr>originalname = name, mimetype = mime, size_bytes = 3,
                       file_buffer = [1, 2, 3]\<rparr>\<rparr>"

text \<open>The stored record of the sample audio upload.\<close>

definition sample_audio_record :: FileMetadata where
  "sample_audio_record =
     \<lparr>oid = Some ''65a000000000000000000001'',
      filename = ''song.mp3'',
      src = ''http://cdn.local/uploads/u1/2024-01-01/123e4567-e89b-42d3-a456-426614174000-song.mp3'',
      preview =
        Some ''http://cdn.local/uploads/u1/2024-01-01/123e4567-e89b-42d3-a456-426614174000-song.mp3'',
      mimeType = ''audio/mpeg'',
      ftype = ''audio'',
      details =
        \<lparr>d_src = ''http://cdn.local/uploads/u1/2024-01-01/123e4567-e89b-42d3-a456-426614174000-song.mp3'',
         d_duration = None, d_width = None, d_height = None,
         d_preview =
           ''http://cdn.local/uploads/u1/2024-01-01/123e4567-e89b-42d3-a456-426614174000-song.mp3''\<rparr>,
      fsize = 3,
      s3Key = ''uploads/u1/2024-01-01/123e4567-e89b-42d3-a456-426614174000-song.mp3'',
      uploadedAt = 1704103200000,
      uploadedBy = Some ''u1''\<rparr>"

text \<open>The same deployment with a store that is failing.\<close>

definition failing_put :: "(string \<Rightarrow> bool) \<Rightarrow> string \<Rightarrow> world \<Rightarrow> world" where
  "failing_put hit msg w =
     w\<lparr>s3 := (s3 w)\<lparr>s3_put_error := (\<lambda>k. if hit k then Some msg else None)\<rparr>\<rparr>"

definition failing_insert :: "string \<Rightarrow> world \<Rightarrow> world" where
  "failing_insert msg w = w\<lparr>mongo := (mongo w)\<lparr>insert_error := Some msg\<rparr>\<rparr>"

text \<open>A stored record of an image with a preview, as \<^verbatim>\<open>uploadFile\<close> writes it.\<close>

definition sample_record :: "string \<Rightarrow> string \<Rightarrow> string \<Rightarrow> FileMetadata" where
  "sample_record i owner name =
     \<lparr>oid = Some i,
      filename = name,
      src = ''http://cdn.local/uploads/'' @ owner
              @ ''/2024-01-01/123e4567-e89b-42d3-a456-426614174000-'' @ name,
      preview = Some (''http://cdn.local/uploads/'' @ owner
                        @ ''/2024-01-01/preview-123e4567-e89b-42d3-a456-426614174000.jpg''),
      mimeType = ''image/png'',
      ftype = ''image'',
      details =
        \<lparr>d_src = ''http://cdn.local/uploads/'' @ owner
                   @ ''/2024-01-01/123e4567-e89b-42d3-a456-426614174000-'' @ name,
         d_duration = None, d_width = None, d_height = None,
         d_preview = ''http://cdn.local/uploads/'' @ owner
                       @ ''/2024-01-01/preview-123e4567-e89b-42d3-a456-426614174000.jpg''\<rparr>,
      fsize = 3,
      s3Key = ''uploads/'' @ owner @ ''/2024-01-01/123e4567-e89b-42d3-a456-426614174000-'' @ name,
      uploadedAt = 1704103200000,
      uploadedBy = Some owner\<rparr>"

text \<open>
  Two stored images, of two owners; the originals are in the object store, the previews are
  not.
\<close>

definition stored_state :: state where
  "stored_state =
     \<lparr>objects =
        [(''media'', ''uploads/u1/2024-01-01/123e4567-e89b-42d3-a456-426614174000-Cat.png'')
           \<mapsto> [1, 2, 3],
         (''media'', ''uploads/u2/2024-01-01/123e4567-e89b-42d3-a456-426614174000-dog.png'')
           \<mapsto> [1, 2, 3]],
      files = [sample_record ''65a000000000000000000001'' ''u1'' ''Cat.png'',
               sample_record ''65a000000000000000000002'' ''u2'' ''dog.png''],
      trace = []\<rparr>"

definition failing_delete :: "(string \<Rightarrow> bool) \<Rightarrow> string \<Rightarrow> world \<Rightarrow> world" where
  "failing_delete hit msg w =
     w\<lparr>s3 := (s3 w)\<lparr>s3_delete_error := (\<lambda>k. if hit k then Some msg else None)\<rparr>\<rparr>"

text \<open>A search with a text query and no other criterion.\<close>

definition text_query :: "string \<Rightarrow> search_query" where
  "text_query s =
     \<lparr>q_query = Some s, q_type = None, q_mimeType = None, q_minSize = None, q_maxSize = None,
      q_startDate = None, q_endDate = None\<rparr>"

section \<open>Properties\<close>

lemmas sample_defs = sample_world_def sample_request_def empty_state_def sample_config_def
  sample_tools_def sample_s3_def sample_mongo_def sample_sharp_def extractMediaMetadata_def
  generateVideoPoster_def

lemma sample_extractMediaMetadata:
  "extractMediaMetadata (sample_tools mime) buf =
     Inr \<lparr>meta_mimeType = Some mime, meta_width = None, meta_height = None,
          meta_duration = None\<rparr>"
  by (simp add: extractMediaMetadata_def sample_tools_def)

lemmas upload_defs = uploadFile_def uploadFile_try_def uploadFile_preview_def
  uploadFile_preview_put_def uploadFile_doc_def uploadToS3_def log_event_def getFileType_def
  startsWith_def or_else_def truthy_def generateImagePreview_def larger_than_max_def
  MAX_WIDTH_def MAX_HEIGHT_def MAX_FILE_SIZE_def preview_request_def

subsection \<open>Key reconstruction\<close>

text \<open>
  C1. The keys rebuilt by \<^verbatim>\<open>getS3KeysForFile\<close> from a record should include every key written
  at upload time. They do not: the file id is a version 4 UUID, which contains \<^verbatim>\<open>-\<close>, and
  \<^verbatim>\<open>filename.split('-')[0]\<close> recovers its first group only. For the upload of an image
  \<^verbatim>\<open>a.png\<close> with a preview, the preview is written under
  \<^verbatim>\<open>preview-123e4567-e89b-42d3-a456-426614174000.jpg\<close> and the delete path rebuilds
  \<^verbatim>\<open>preview-123e4567.jpg\<close>.
\<close>

theorem getS3KeysForFile_misses_written_preview:
  "written_keys (snd (uploadFile (sample_world ''image/png'')
                        (sample_request ''a.png'' ''image/png'') empty_state)) =
     [''uploads/u1/2024-01-01/123e4567-e89b-42d3-a456-426614174000-a.png'',
      ''uploads/u1/2024-01-01/preview-123e4567-e89b-42d3-a456-426614174000.jpg'']
   \<and> map getS3KeysForFile
         (files (snd (uploadFile (sample_world ''image/png'')
                        (sample_request ''a.png'' ''image/png'') empty_state))) =
     [[''uploads/u1/2024-01-01/123e4567-e89b-42d3-a456-426614174000-a.png'',
       ''uploads/u1/2024-01-01/preview-123e4567.jpg'']]"
  by (simp add: sample_defs upload_defs written_keys_def getS3KeysForFile_def Let_def)

subsection \<open>Preview derivation\<close>

text \<open>
  C2, as the code has it. For an image whose header decodes, \<^verbatim>\<open>generateImagePreview\<close> runs the
  resize pipeline exactly when at least one of the two dimensions is known and exceeds 720; the
  pipeline is asked to fit inside 720 by 720 without enlargement and to encode JPEG at quality
  85, and its result (null when it throws) is the derivative. Otherwise there is no derivative.
\<close>

theorem generateImagePreview_either_axis:
  assumes "sharp_metadata lib buf = Some m"
  shows "generateImagePreview lib buf mime =
           (if (\<exists>w. width m = Some w \<and> 720 < w) \<or> (\<exists>h. height m = Some h \<and> 720 < h)
            then sharp_resize_jpeg lib buf
                   \<lparr>resize_width = 720, resize_height = 720, fit = ''inside'',
                    withoutEnlargement = True, jpeg_quality = 85, failOnError = True\<rparr>
            else None)"
  using assms
  by (auto simp: generateImagePreview_def larger_than_max_def preview_request_def MAX_WIDTH_def
        MAX_HEIGHT_def JPEG_QUALITY_def split: option.splits)

theorem generateImagePreview_either_axis_witness:
  "sharp_metadata (sample_sharp 1000 500) [1, 2, 3] = Some \<lparr>width = Some 1000, height = Some 500\<rparr>
   \<and> generateImagePreview (sample_sharp 1000 500) [1, 2, 3] ''image/png'' = Some [255, 216, 255]
   \<and> generateImagePreview (sample_sharp 720 600) [1, 2, 3] ''image/png'' = None"
proof -
  have a: "sharp_metadata (sample_sharp 1000 500) [1, 2, 3] = Some \<lparr>width = Some 1000, height = Some 500\<rparr>"
    by (simp add: sample_sharp_def)
  have b: "sharp_metadata (sample_sharp 720 600) [1, 2, 3] = Some \<lparr>width = Some 720, height = Some 600\<rparr>"
    by (simp add: sample_sharp_def)
  show ?thesis
    using a generateImagePreview_either_axis [OF a, of "''image/png''"]
      generateImagePreview_either_axis [OF b, of "''image/png''"]
    by (simp add: sample_sharp_def)
qed

text \<open>
  C2, as stated, asks for both dimensions to exceed 720. An image of 1000 by 500 has only one
  dimension above the bound and still gets a resized derivative.
\<close>

theorem both_axes_counterexample:
  "sharp_metadata (sample_sharp 1000 500) [1, 2, 3] = Some \<lparr>width = Some 1000, height = Some 500\<rparr>
   \<and> \<not> both_dimensions_exceed \<lparr>width = Some 1000, height = Some 500\<rparr>
   \<and> generateImagePreview (sample_sharp 1000 500) [1, 2, 3] ''image/png'' = Some [255, 216, 255]"
  by (simp add: sample_sharp_def both_dimensions_exceed_def generateImagePreview_def
        larger_than_max_def MAX_WIDTH_def MAX_HEIGHT_def)

subsection \<open>Ingestion\<close>

text \<open>
  C3. An upload that reaches classification and whose category is not image, video or audio is
  answered with the 400 response \<^verbatim>\<open>UNSUPPORTED_MEDIA_TYPE\<close>, and the state is the one before the
  request: no object was put and no call to a store was made.
\<close>

theorem uploadFile_unsupported:
  assumes "user_id req = Some userId" and "userId \<noteq> []"
    and "req_file req = Some f" and "size_bytes f \<le> MAX_FILE_SIZE"
    and "extractMediaMetadata (tool w) (file_buffer f) = Inr meta"
    and "getFileType (or_else (meta_mimeType meta) (mimetype f)) (originalname f)
           \<notin> {''image'', ''video'', ''audio''}"
  shows "uploadFile w req st =
           (ErrorResponse 400 ''UNSUPPORTED_MEDIA_TYPE''
              ''File type not supported for preview generation'', st)"
  using assms by (simp add: uploadFile_def uploadFile_try_def Let_def)

theorem uploadFile_unsupported_witness:
  "getFileType ''application/pdf'' ''report.pdf'' = ''document''
   \<and> uploadFile (sample_world ''application/pdf'') (sample_request ''report.pdf'' ''application/pdf'')
       empty_state =
       (ErrorResponse 400 ''UNSUPPORTED_MEDIA_TYPE''
          ''File type not supported for preview generation'', empty_state)"
proof -
  let ?w = "sample_world ''application/pdf''"
  let ?req = "sample_request ''report.pdf'' ''application/pdf''"
  let ?f = "\<lparr>originalname = ''report.pdf'', mimetype = ''application/pdf'', size_bytes = 3,
             file_buffer = [1, 2, 3]\<rparr>"
  let ?meta = "\<lparr>meta_mimeType = Some ''application/pdf'', meta_width = None, meta_height = None,
                meta_duration = None\<rparr>"
  have k: "getFileType ''application/pdf'' ''report.pdf'' = ''document''"
    by (simp add: getFileType_def startsWith_def)
  have 1: "user_id ?req = Some ''u1''" by (simp add: sample_request_def)
  have 2: "''u1'' \<noteq> []" by simp
  have 3: "req_file ?req = Some ?f" by (simp add: sample_request_def)
  have 4: "size_bytes ?f \<le> MAX_FILE_SIZE" by (simp add: MAX_FILE_SIZE_def)
  have 5: "extractMediaMetadata (tool ?w) (file_buffer ?f) = Inr ?meta"
    by (simp add: sample_world_def sample_extractMediaMetadata)
  have 6: "getFileType (or_else (meta_mimeType ?meta) (mimetype ?f)) (originalname ?f)
             \<notin> {''image'', ''video'', ''audio''}"
    using k by (simp add: or_else_def)
  show ?thesis
    using k uploadFile_unsupported [OF 1 2 3 4 5 6, of empty_state] by simp
qed

text \<open>What a successful upload went through, step by step.\<close>

lemma uploadFile_preview_audio:
  "uploadFile_preview w ''audio'' buf mime baseKey fileId = Inr (None, None, None)"
  by (simp add: uploadFile_preview_def)

lemma uploadToS3_Some:
  assumes "uploadToS3 w buf key contentType st = (Inr (Some url), st1)"
  shows "url = S3_COMP_VIRT_HOST (config w) @ ''/'' @ key
         \<and> st1 = log_event (S3PutObject (S3_COMP_BUCKET_BKT (config w)) key contentType True)
                   (st\<lparr>objects := (objects st)((S3_COMP_BUCKET_BKT (config w), key) \<mapsto> buf)\<rparr>)"
  using assms by (auto simp: uploadToS3_def Let_def split: if_splits option.splits)

lemma uploadFile_Inr_try:
  assumes "uploadFile w req st = (UploadCreated doc i, st')"
  obtains userId f where "user_id req = Some userId" and "userId \<noteq> []"
    and "req_file req = Some f" and "size_bytes f \<le> MAX_FILE_SIZE"
    and "uploadFile_try w userId f
           (''uploads/'' @ userId @ ''/'' @ hd (js_split CHR ''T'' (now_iso (tool w))))
           (uuidv4 (tool w))
           (''uploads/'' @ userId @ ''/'' @ hd (js_split CHR ''T'' (now_iso (tool w))) @ ''/''
              @ uuidv4 (tool w) @ ''-'' @ originalname f) st
         = (Inr (UploadCreated doc i), st')"
  using assms
  by (auto simp: uploadFile_def unauthorized_def Let_def
        split: option.splits if_splits prod.splits sum.splits)

lemma uploadFile_try_Created:
  assumes "uploadFile_try w userId f baseKey fileId key st = (Inr (UploadCreated doc i), st')"
  obtains meta p originalUrl st1 previewUrl st2 where
    "extractMediaMetadata (tool w) (file_buffer f) = Inr meta"
    and "getFileType (or_else (meta_mimeType meta) (mimetype f)) (originalname f)
           \<in> {''image'', ''video'', ''audio''}"
    and "uploadFile_preview w
           (getFileType (or_else (meta_mimeType meta) (mimetype f)) (originalname f))
           (file_buffer f) (or_else (meta_mimeType meta) (mimetype f)) baseKey fileId = Inr p"
    and "uploadToS3 w (file_buffer f) key (or_else (meta_mimeType meta) (mimetype f)) st
           = (Inr (Some originalUrl), st1)"
    and "uploadFile_preview_put w
           (getFileType (or_else (meta_mimeType meta) (mimetype f)) (originalname f))
           p originalUrl st1 = (Inr previewUrl, st2)"
    and "doc = (uploadFile_doc w userId f meta (or_else (meta_mimeType meta) (mimetype f))
                 (getFileType (or_else (meta_mimeType meta) (mimetype f)) (originalname f))
                 key originalUrl previewUrl)\<lparr>oid := Some (insertedId (mongo w))\<rparr>"
    and "st' = log_event (DbInsertOne True) (st2\<lparr>files := files st2 @ [doc]\<rparr>)"
  using assms unfolding uploadFile_try_def Let_def
  by (auto split: sum.splits option.splits prod.splits if_splits)

text \<open>
  C4. When an upload resolved as audio succeeds, the record's preview URL is its source URL
  (also inside \<^verbatim>\<open>details\<close>), and the calls of the request are one successful put, of the
  original under the record's key, followed by the insert: there is no second put.
\<close>

theorem uploadFile_audio_single_write:
  assumes "uploadFile w req st = (UploadCreated doc i, st')" and "ftype doc = ''audio''"
  shows "preview doc = Some (src doc)
         \<and> d_preview (details doc) = d_src (details doc)
         \<and> trace st' = trace st @ [S3PutObject (S3_COMP_BUCKET_BKT (config w)) (s3Key doc) (mimeType doc) True,
                                   DbInsertOne True]"
proof -
  from assms(1) obtain userId f baseKey key where
    t: "uploadFile_try w userId f baseKey (uuidv4 (tool w)) key st = (Inr (UploadCreated doc i), st')"
    by (rule uploadFile_Inr_try)
  from t obtain meta p originalUrl st1 previewUrl st2 where
    put: "uploadToS3 w (file_buffer f) key (or_else (meta_mimeType meta) (mimetype f)) st
           = (Inr (Some originalUrl), st1)"
    and pre: "uploadFile_preview w
           (getFileType (or_else (meta_mimeType meta) (mimetype f)) (originalname f))
           (file_buffer f) (or_else (meta_mimeType meta) (mimetype f)) baseKey (uuidv4 (tool w)) = Inr p"
    and pp: "uploadFile_preview_put w
           (getFileType (or_else (meta_mimeType meta) (mimetype f)) (originalname f))
           p originalUrl st1 = (Inr previewUrl, st2)"
    and doc: "doc = (uploadFile_doc w userId f meta (or_else (meta_mimeType meta) (mimetype f))
                 (getFileType (or_else (meta_mimeType meta) (mimetype f)) (originalname f))
                 key originalUrl previewUrl)\<lparr>oid := Some (insertedId (mongo w))\<rparr>"
    and st': "st' = log_event (DbInsertOne True) (st2\<lparr>files := files st2 @ [doc]\<rparr>)"
    by (rule uploadFile_try_Created)
  from doc assms(2) have ty: "getFileType (or_else (meta_mimeType meta) (mimetype f)) (originalname f) = ''audio''"
    by (simp add: uploadFile_doc_def)
  from pre ty have p: "p = (None, None, None)"
    by (simp add: uploadFile_preview_audio)
  from pp ty p have pu: "previewUrl = Some originalUrl" and st2: "st2 = st1"
    by (simp_all add: uploadFile_preview_put_def)
  from uploadToS3_Some [OF put] have url: "originalUrl = S3_COMP_VIRT_HOST (config w) @ ''/'' @ key"
    and st1: "st1 = log_event (S3PutObject (S3_COMP_BUCKET_BKT (config w)) key
                       (or_else (meta_mimeType meta) (mimetype f)) True)
                   (st\<lparr>objects := (objects st)((S3_COMP_BUCKET_BKT (config w), key) \<mapsto> file_buffer f)\<rparr>)"
    by simp_all
  have "preview doc = Some (src doc)"
    using doc pu url by (simp add: uploadFile_doc_def or_else_def)
  moreover have "d_preview (details doc) = d_src (details doc)"
    using doc pu url by (simp add: uploadFile_doc_def or_else_def)
  moreover have "trace st' = trace st @ [S3PutObject (S3_COMP_BUCKET_BKT (config w)) (s3Key doc) (mimeType doc) True,
                                   DbInsertOne True]"
    using st' st2 st1 doc by (simp add: log_event_def uploadFile_doc_def)
  ultimately show ?thesis by simp
qed

theorem uploadFile_audio_single_write_witness:
  "fst (uploadFile (sample_world ''audio/mpeg'') (sample_request ''song.mp3'' ''audio/mpeg'') empty_state)
     = UploadCreated sample_audio_record ''65a000000000000000000001''
   \<and> ftype sample_audio_record = ''audio''
   \<and> preview sample_audio_record = Some (src sample_audio_record)
   \<and> trace (snd (uploadFile (sample_world ''audio/mpeg'') (sample_request ''song.mp3'' ''audio/mpeg'') empty_state))
     = [S3PutObject ''media'' ''uploads/u1/2024-01-01/123e4567-e89b-42d3-a456-426614174000-song.mp3'' ''audio/mpeg'' True,
        DbInsertOne True]"
proof -
  let ?r = "uploadFile (sample_world ''audio/mpeg'') (sample_request ''song.mp3'' ''audio/mpeg'') empty_state"
  have r: "fst ?r = UploadCreated sample_audio_record ''65a000000000000000000001''"
    by (simp add: sample_defs upload_defs sample_audio_record_def Let_def)
  then have e: "?r = (UploadCreated sample_audio_record ''65a000000000000000000001'', snd ?r)"
    by (metis prod.collapse)
  have a: "ftype sample_audio_record = ''audio''"
    by (simp add: sample_audio_record_def)
  have t0: "trace empty_state = []" by (simp add: empty_state_def)
  have c: "S3_COMP_BUCKET_BKT (config (sample_world ''audio/mpeg'')) = ''media''"
    by (simp add: sample_world_def sample_config_def)
  have k: "s3Key sample_audio_record = ''uploads/u1/2024-01-01/123e4567-e89b-42d3-a456-426614174000-song.mp3''"
     and m: "mimeType sample_audio_record = ''audio/mpeg''"
    by (simp_all add: sample_audio_record_def)
  show ?thesis
    using r a uploadFile_audio_single_write [OF e a] t0 c k m by simp
qed

text \<open>
  C10. When the original has been put and the put of the derivative throws, the request ends
  with the 500 response carrying the store's message; no record is inserted, no compensating
  delete is made, and the original stays in the object store under its key.
\<close>

theorem uploadFile_preview_put_failure_orphans_original:
  assumes "user_id req = Some userId" and "userId \<noteq> []"
    and "req_file req = Some f" and "size_bytes f \<le> MAX_FILE_SIZE"
    and "extractMediaMetadata (tool w) (file_buffer f) = Inr meta"
    and "finalMimeType = or_else (meta_mimeType meta) (mimetype f)"
    and "baseKey = ''uploads/'' @ userId @ ''/'' @ hd (js_split CHR ''T'' (now_iso (tool w)))"
    and "key = baseKey @ ''/'' @ uuidv4 (tool w) @ ''-'' @ originalname f"
    and "uploadFile_preview w (getFileType finalMimeType (originalname f)) (file_buffer f)
           finalMimeType baseKey (uuidv4 (tool w))
         = Inr (Some previewBuffer, Some previewKey, Some previewMimeType)"
    and "truthy (S3_COMP_BUCKET_URL (config w))"
    and "s3_put_error (s3 w) key = None"
    and "s3_put_error (s3 w) previewKey = Some msg"
    and "bucket = S3_COMP_BUCKET_BKT (config w)"
  shows "\<exists>st'. uploadFile w req st = (ErrorResponse 500 msg ''Upload failed'', st')
           \<and> files st' = files st
           \<and> objects st' = (objects st)((bucket, key) \<mapsto> file_buffer f)
           \<and> trace st' = trace st @ [S3PutObject bucket key finalMimeType True,
                                     S3PutObject bucket previewKey previewMimeType False]"
proof -
  let ?ty = "getFileType finalMimeType (originalname f)"
  let ?st1 = "log_event (S3PutObject bucket key finalMimeType True)
                (st\<lparr>objects := (objects st)((bucket, key) \<mapsto> file_buffer f)\<rparr>)"
  let ?st2 = "log_event (S3PutObject bucket previewKey previewMimeType False) ?st1"
  from assms(9) have ty: "?ty = ''image'' \<or> ?ty = ''video''"
    by (auto simp: uploadFile_preview_def split: if_splits option.splits sum.splits)
  from assms(9) have pk: "previewKey \<noteq> []" and pm: "previewMimeType \<noteq> []"
    by (auto simp: uploadFile_preview_def split: if_splits option.splits sum.splits)
  have put1: "uploadToS3 w (file_buffer f) key finalMimeType st
                = (Inr (Some (S3_COMP_VIRT_HOST (config w) @ ''/'' @ key)), ?st1)"
    using assms(10,11,13) by (simp add: uploadToS3_def Let_def)
  have put2: "uploadToS3 w previewBuffer previewKey previewMimeType ?st1 = (Inl msg, ?st2)"
    using assms(10,12,13) by (simp add: uploadToS3_def Let_def log_event_def)
  have pp: "uploadFile_preview_put w ?ty (Some previewBuffer, Some previewKey, Some previewMimeType)
              (S3_COMP_VIRT_HOST (config w) @ ''/'' @ key) ?st1 = (Inl msg, ?st2)"
    using ty pk pm put2 by (auto simp: uploadFile_preview_put_def)
  have tr: "uploadFile_try w userId f baseKey (uuidv4 (tool w)) key st = (Inl msg, ?st2)"
    using assms(5,6,9) ty put1 pp
    by (auto simp: uploadFile_try_def Let_def)
  have "uploadFile w req st = (ErrorResponse 500 msg ''Upload failed'', ?st2)"
    using assms(1-4,7,8) tr by (simp add: uploadFile_def Let_def)
  moreover have "files ?st2 = files st" by (simp add: log_event_def)
  moreover have "objects ?st2 = (objects st)((bucket, key) \<mapsto> file_buffer f)"
    by (simp add: log_event_def)
  moreover have "trace ?st2 = trace st @ [S3PutObject bucket key finalMimeType True,
                                     S3PutObject bucket previewKey previewMimeType False]"
    by (simp add: log_event_def)
  ultimately show ?thesis by blast
qed

theorem uploadFile_preview_put_failure_orphans_original_witness:
  "fst (uploadFile (failing_put (\<lambda>k. k = ''uploads/u1/2024-01-01/preview-123e4567-e89b-42d3-a456-426614174000.jpg'') ''SlowDown'' (sample_world ''image/png''))
          (sample_request ''a.png'' ''image/png'') empty_state)
     = ErrorResponse 500 ''SlowDown'' ''Upload failed''
   \<and> files (snd (uploadFile (failing_put (\<lambda>k. k = ''uploads/u1/2024-01-01/preview-123e4567-e89b-42d3-a456-426614174000.jpg'') ''SlowDown'' (sample_world ''image/png''))
          (sample_request ''a.png'' ''image/png'') empty_state)) = []
   \<and> objects (snd (uploadFile (failing_put (\<lambda>k. k = ''uploads/u1/2024-01-01/preview-123e4567-e89b-42d3-a456-426614174000.jpg'') ''SlowDown'' (sample_world ''image/png''))
          (sample_request ''a.png'' ''image/png'') empty_state))
       (''media'', ''uploads/u1/2024-01-01/123e4567-e89b-42d3-a456-426614174000-a.png'') = Some [1, 2, 3]"
proof -
  let ?pk = "''uploads/u1/2024-01-01/preview-123e4567-e89b-42d3-a456-426614174000.jpg''"
  let ?w = "failing_put (\<lambda>k. k = ?pk) ''SlowDown'' (sample_world ''image/png'')"
  let ?req = "sample_request ''a.png'' ''image/png''"
  let ?f = "\<lparr>originalname = ''a.png'', mimetype = ''image/png'', size_bytes = 3,
             file_buffer = [1, 2, 3]\<rparr>"
  let ?meta = "\<lparr>meta_mimeType = Some ''image/png'', meta_width = None, meta_height = None,
                meta_duration = None\<rparr>"
  let ?key = "''uploads/u1/2024-01-01/123e4567-e89b-42d3-a456-426614174000-a.png''"
  have 1: "user_id ?req = Some ''u1''" by (simp add: sample_request_def)
  have 2: "''u1'' \<noteq> []" by simp
  have 3: "req_file ?req = Some ?f" by (simp add: sample_request_def)
  have 4: "size_bytes ?f \<le> MAX_FILE_SIZE" by (simp add: MAX_FILE_SIZE_def)
  have 5: "extractMediaMetadata (tool ?w) (file_buffer ?f) = Inr ?meta"
    by (simp add: failing_put_def sample_world_def sample_extractMediaMetadata)
  have 6: "''image/png'' = or_else (meta_mimeType ?meta) (mimetype ?f)"
    by (simp add: or_else_def)
  have 7: "''uploads/u1/2024-01-01'' = ''uploads/'' @ ''u1'' @ ''/'' @ hd (js_split CHR ''T'' (now_iso (tool ?w)))"
    by (simp add: failing_put_def sample_world_def sample_tools_def)
  have 8: "?key = ''uploads/u1/2024-01-01'' @ ''/'' @ uuidv4 (tool ?w) @ ''-'' @ originalname ?f"
    by (simp add: failing_put_def sample_world_def sample_tools_def)
  have 9: "uploadFile_preview ?w (getFileType ''image/png'' (originalname ?f)) (file_buffer ?f)
             ''image/png'' ''uploads/u1/2024-01-01'' (uuidv4 (tool ?w))
           = Inr (Some [255, 216, 255], Some ?pk, Some ''image/jpeg'')"
    by (simp add: failing_put_def sample_defs upload_defs)
  have 10: "truthy (S3_COMP_BUCKET_URL (config ?w))"
    by (simp add: failing_put_def sample_world_def sample_config_def truthy_def)
  have 11: "s3_put_error (s3 ?w) ?key = None"
    by (simp add: failing_put_def)
  have 12: "s3_put_error (s3 ?w) ?pk = Some ''SlowDown''"
    by (simp add: failing_put_def)
  have 13: "''media'' = S3_COMP_BUCKET_BKT (config ?w)"
    by (simp add: failing_put_def sample_world_def sample_config_def)
  have e: "files empty_state = []" by (simp add: empty_state_def)
  from uploadFile_preview_put_failure_orphans_original [OF 1 2 3 4 5 6 7 8 9 10 11 12 13, of empty_state]
  obtain st' where "uploadFile ?w ?req empty_state = (ErrorResponse 500 ''SlowDown'' ''Upload failed'', st')"
    and "files st' = files empty_state"
    and "objects st' = (objects empty_state)((''media'', ?key) \<mapsto> file_buffer ?f)"
    by blast
  then show ?thesis using e by simp
qed

text \<open>The failure cases of an upload, one by one.\<close>

lemma max_mb: "show_nat (MAX_FILE_SIZE div (1024 * 1024)) = ''100''"
  by (simp add: MAX_FILE_SIZE_def)

lemma uploadFile_unauthorized:
  "\<not> truthy (user_id req) \<Longrightarrow> uploadFile w req st = (ErrorResponse 401 ''UNAUTHORIZED'' ''User authentication required'', st)"
  by (auto simp: uploadFile_def truthy_def unauthorized_def split: option.splits)

lemma uploadFile_no_file:
  "truthy (user_id req) \<Longrightarrow> req_file req = None \<Longrightarrow>
   uploadFile w req st = (ErrorResponse 400 ''NO_FILE'' ''No file uploaded'', st)"
  by (auto simp: uploadFile_def truthy_def split: option.splits)

lemma uploadFile_too_large:
  "truthy (user_id req) \<Longrightarrow> req_file req = Some f \<Longrightarrow> MAX_FILE_SIZE < size_bytes f \<Longrightarrow>
   uploadFile w req st = (ErrorResponse 400 ''FILE_TOO_LARGE'' ''File size exceeds 100MB limit'', st)"
  using max_mb by (auto simp: uploadFile_def truthy_def split: option.splits)

lemma uploadToS3_ok:
  "truthy (S3_COMP_BUCKET_URL (config w)) \<Longrightarrow> s3_put_error (s3 w) key = None \<Longrightarrow>
   uploadToS3 w buf key contentType st =
     (Inr (Some (S3_COMP_VIRT_HOST (config w) @ ''/'' @ key)),
      log_event (S3PutObject (S3_COMP_BUCKET_BKT (config w)) key contentType True)
        (st\<lparr>objects := (objects st)((S3_COMP_BUCKET_BKT (config w), key) \<mapsto> buf)\<rparr>))"
  by (simp add: uploadToS3_def Let_def)

lemma uploadToS3_throws:
  "truthy (S3_COMP_BUCKET_URL (config w)) \<Longrightarrow> s3_put_error (s3 w) key = Some msg \<Longrightarrow>
   uploadToS3 w buf key contentType st =
     (Inl msg, log_event (S3PutObject (S3_COMP_BUCKET_BKT (config w)) key contentType False) st)"
  by (simp add: uploadToS3_def Let_def)

lemma uploadFile_preview_put_ok:
  assumes "truthy (S3_COMP_BUCKET_URL (config w))" and "\<forall>k. s3_put_error (s3 w) k = None"
  shows "\<exists>previewUrl st2. uploadFile_preview_put w fileType p originalUrl st1 = (Inr previewUrl, st2)"
  using assms
  by (cases p) (auto simp: uploadFile_preview_put_def uploadToS3_ok split: option.splits)

lemma uploadFile_storage_failure:
  assumes "user_id req = Some userId" and "userId \<noteq> []"
    and "req_file req = Some f" and "size_bytes f \<le> MAX_FILE_SIZE"
    and "extractMediaMetadata (tool w) (file_buffer f) = Inr meta"
    and "getFileType (or_else (meta_mimeType meta) (mimetype f)) (originalname f)
           \<in> {''image'', ''video'', ''audio''}"
    and "uploadFile_preview w
           (getFileType (or_else (meta_mimeType meta) (mimetype f)) (originalname f))
           (file_buffer f) (or_else (meta_mimeType meta) (mimetype f))
           (''uploads/'' @ userId @ ''/'' @ hd (js_split CHR ''T'' (now_iso (tool w))))
           (uuidv4 (tool w)) = Inr p"
    and "truthy (S3_COMP_BUCKET_URL (config w))"
    and "\<forall>k. s3_put_error (s3 w) k = Some msg"
  shows "fst (uploadFile w req st) = ErrorResponse 500 msg ''Upload failed''"
proof -
  have "fst (uploadFile_try w userId f
           (''uploads/'' @ userId @ ''/'' @ hd (js_split CHR ''T'' (now_iso (tool w))))
           (uuidv4 (tool w))
           (''uploads/'' @ userId @ ''/'' @ hd (js_split CHR ''T'' (now_iso (tool w))) @ ''/''
              @ uuidv4 (tool w) @ ''-'' @ originalname f) st) = Inl msg"
    using assms(5-9) by (auto simp: uploadFile_try_def Let_def uploadToS3_throws)
  then show ?thesis
    using assms(1-4)
    by (auto simp: uploadFile_def Let_def split: prod.splits sum.splits)
qed

lemma uploadFile_persistence_failure:
  assumes "user_id req = Some userId" and "userId \<noteq> []"
    and "req_file req = Some f" and "size_bytes f \<le> MAX_FILE_SIZE"
    and "extractMediaMetadata (tool w) (file_buffer f) = Inr meta"
    and "getFileType (or_else (meta_mimeType meta) (mimetype f)) (originalname f)
           \<in> {''image'', ''video'', ''audio''}"
    and "uploadFile_preview w
           (getFileType (or_else (meta_mimeType meta) (mimetype f)) (originalname f))
           (file_buffer f) (or_else (meta_mimeType meta) (mimetype f))
           (''uploads/'' @ userId @ ''/'' @ hd (js_split CHR ''T'' (now_iso (tool w))))
           (uuidv4 (tool w)) = Inr p"
    and "truthy (S3_COMP_BUCKET_URL (config w))"
    and "\<forall>k. s3_put_error (s3 w) k = None"
    and "insert_error (mongo w) = Some msg"
  shows "fst (uploadFile w req st) = ErrorResponse 500 msg ''Upload failed''"
proof -
  let ?base = "''uploads/'' @ userId @ ''/'' @ hd (js_split CHR ''T'' (now_iso (tool w)))"
  let ?key = "?base @ ''/'' @ uuidv4 (tool w) @ ''-'' @ originalname f"
  let ?mime = "or_else (meta_mimeType meta) (mimetype f)"
  let ?ty = "getFileType ?mime (originalname f)"
  let ?url = "S3_COMP_VIRT_HOST (config w) @ ''/'' @ ?key"
  let ?st1 = "log_event (S3PutObject (S3_COMP_BUCKET_BKT (config w)) ?key ?mime True)
        (st\<lparr>objects := (objects st)((S3_COMP_BUCKET_BKT (config w), ?key) \<mapsto> file_buffer f)\<rparr>)"
  have put: "uploadToS3 w (file_buffer f) ?key ?mime st = (Inr (Some ?url), ?st1)"
    using assms(8,9) by (simp add: uploadToS3_ok)
  obtain previewUrl st2 where pp: "uploadFile_preview_put w ?ty p ?url ?st1 = (Inr previewUrl, st2)"
    using uploadFile_preview_put_ok [OF assms(8,9)] by blast
  have "fst (uploadFile_try w userId f ?base (uuidv4 (tool w)) ?key st) = Inl msg"
    using assms(5-7,10) put pp by (auto simp: uploadFile_try_def Let_def)
  then show ?thesis
    using assms(1-4)
    by (auto simp: uploadFile_def Let_def split: prod.splits sum.splits)
qed

text \<open>
  C5, as the code has it. A missing user, a missing file, an oversized file and an unsupported
  category are each answered with an error code of their own (\<^verbatim>\<open>UNAUTHORIZED\<close> with status 401;
  \<^verbatim>\<open>NO_FILE\<close>, \<^verbatim>\<open>FILE_TOO_LARGE\<close> and \<^verbatim>\<open>UNSUPPORTED_MEDIA_TYPE\<close> with status 400) and leave
  the state untouched. A failing object store and a failing metadata insert both end in the one
  \<^verbatim>\<open>catch\<close> of the handler: status 500, message \<^verbatim>\<open>Upload failed\<close>, and the text of the
  exception in the error field.
\<close>

theorem uploadFile_error_kinds:
  "(\<not> truthy (user_id req) \<longrightarrow>
      uploadFile w req st =
        (ErrorResponse 401 ''UNAUTHORIZED'' ''User authentication required'', st))
   \<and> (truthy (user_id req) \<and> req_file req = None \<longrightarrow>
      uploadFile w req st = (ErrorResponse 400 ''NO_FILE'' ''No file uploaded'', st))
   \<and> (truthy (user_id req) \<and> req_file req = Some f \<and> MAX_FILE_SIZE < size_bytes f \<longrightarrow>
      uploadFile w req st =
        (ErrorResponse 400 ''FILE_TOO_LARGE'' ''File size exceeds 100MB limit'', st))
   \<and> (user_id req = Some userId \<and> userId \<noteq> [] \<and> req_file req = Some f
        \<and> size_bytes f \<le> MAX_FILE_SIZE
        \<and> extractMediaMetadata (tool w) (file_buffer f) = Inr meta
        \<and> getFileType (or_else (meta_mimeType meta) (mimetype f)) (originalname f)
             \<notin> {''image'', ''video'', ''audio''} \<longrightarrow>
      uploadFile w req st =
        (ErrorResponse 400 ''UNSUPPORTED_MEDIA_TYPE''
           ''File type not supported for preview generation'', st))
   \<and> (user_id req = Some userId \<and> userId \<noteq> [] \<and> req_file req = Some f
        \<and> size_bytes f \<le> MAX_FILE_SIZE
        \<and> extractMediaMetadata (tool w) (file_buffer f) = Inr meta
        \<and> getFileType (or_else (meta_mimeType meta) (mimetype f)) (originalname f)
             \<in> {''image'', ''video'', ''audio''}
        \<and> uploadFile_preview w
             (getFileType (or_else (meta_mimeType meta) (mimetype f)) (originalname f))
             (file_buffer f) (or_else (meta_mimeType meta) (mimetype f))
             (''uploads/'' @ userId @ ''/'' @ hd (js_split CHR ''T'' (now_iso (tool w))))
             (uuidv4 (tool w)) = Inr p
        \<and> truthy (S3_COMP_BUCKET_URL (config w)) \<longrightarrow>
      ((\<forall>k. s3_put_error (s3 w) k = Some msg) \<longrightarrow>
         fst (uploadFile w req st) = ErrorResponse 500 msg ''Upload failed'')
      \<and> ((\<forall>k. s3_put_error (s3 w) k = None) \<and> insert_error (mongo w) = Some msg \<longrightarrow>
         fst (uploadFile w req st) = ErrorResponse 500 msg ''Upload failed''))"
proof (intro conjI impI)
  assume "\<not> truthy (user_id req)"
  then show "uploadFile w req st =
        (ErrorResponse 401 ''UNAUTHORIZED'' ''User authentication required'', st)"
    by (rule uploadFile_unauthorized)
next
  assume "truthy (user_id req) \<and> req_file req = None"
  then show "uploadFile w req st = (ErrorResponse 400 ''NO_FILE'' ''No file uploaded'', st)"
    by (simp add: uploadFile_no_file)
next
  assume "truthy (user_id req) \<and> req_file req = Some f \<and> MAX_FILE_SIZE < size_bytes f"
  then show "uploadFile w req st =
        (ErrorResponse 400 ''FILE_TOO_LARGE'' ''File size exceeds 100MB limit'', st)"
    by (simp add: uploadFile_too_large)
next
  assume "user_id req = Some userId \<and> userId \<noteq> [] \<and> req_file req = Some f
        \<and> size_bytes f \<le> MAX_FILE_SIZE
        \<and> extractMediaMetadata (tool w) (file_buffer f) = Inr meta
        \<and> getFileType (or_else (meta_mimeType meta) (mimetype f)) (originalname f)
             \<notin> {''image'', ''video'', ''audio''}"
  then show "uploadFile w req st =
        (ErrorResponse 400 ''UNSUPPORTED_MEDIA_TYPE''
           ''File type not supported for preview generation'', st)"
    by (simp add: uploadFile_def uploadFile_try_def Let_def)
next
  assume a: "user_id req = Some userId \<and> userId \<noteq> [] \<and> req_file req = Some f
        \<and> size_bytes f \<le> MAX_FILE_SIZE
        \<and> extractMediaMetadata (tool w) (file_buffer f) = Inr meta
        \<and> getFileType (or_else (meta_mimeType meta) (mimetype f)) (originalname f)
             \<in> {''image'', ''video'', ''audio''}
        \<and> uploadFile_preview w
             (getFileType (or_else (meta_mimeType meta) (mimetype f)) (originalname f))
             (file_buffer f) (or_else (meta_mimeType meta) (mimetype f))
             (''uploads/'' @ userId @ ''/'' @ hd (js_split CHR ''T'' (now_iso (tool w))))
             (uuidv4 (tool w)) = Inr p
        \<and> truthy (S3_COMP_BUCKET_URL (config w))"
    and b: "\<forall>k. s3_put_error (s3 w) k = Some msg"
  show "fst (uploadFile w req st) = ErrorResponse 500 msg ''Upload failed''"
    using a b uploadFile_storage_failure [of req userId f w meta p msg st] by blast
next
  assume a: "user_id req = Some userId \<and> userId \<noteq> [] \<and> req_file req = Some f
        \<and> size_bytes f \<le> MAX_FILE_SIZE
        \<and> extractMediaMetadata (tool w) (file_buffer f) = Inr meta
        \<and> getFileType (or_else (meta_mimeType meta) (mimetype f)) (originalname f)
             \<in> {''image'', ''video'', ''audio''}
        \<and> uploadFile_preview w
             (getFileType (or_else (meta_mimeType meta) (mimetype f)) (originalname f))
             (file_buffer f) (or_else (meta_mimeType meta) (mimetype f))
             (''uploads/'' @ userId @ ''/'' @ hd (js_split CHR ''T'' (now_iso (tool w))))
             (uuidv4 (tool w)) = Inr p
        \<and> truthy (S3_COMP_BUCKET_URL (config w))"
    and b: "(\<forall>k. s3_put_error (s3 w) k = None) \<and> insert_error (mongo w) = Some msg"
  show "fst (uploadFile w req st) = ErrorResponse 500 msg ''Upload failed''"
    using a b uploadFile_persistence_failure [of req userId f w meta p msg st] by blast
qed

theorem uploadFile_error_kinds_witness:
  "fst (uploadFile (sample_world ''audio/mpeg'') \<lparr>user_id = None, req_file = None\<rparr> empty_state)
     = ErrorResponse 401 ''UNAUTHORIZED'' ''User authentication required''
   \<and> fst (uploadFile (sample_world ''audio/mpeg'') \<lparr>user_id = Some ''u1'', req_file = None\<rparr>
            empty_state)
     = ErrorResponse 400 ''NO_FILE'' ''No file uploaded''
   \<and> fst (uploadFile (sample_world ''audio/mpeg'')
            \<lparr>user_id = Some ''u1'',
             req_file = Some \<lparr>originalname = ''song.mp3'', mimetype = ''audio/mpeg'',
                              size_bytes = 200000000, file_buffer = [1, 2, 3]\<rparr>\<rparr> empty_state)
     = ErrorResponse 400 ''FILE_TOO_LARGE'' ''File size exceeds 100MB limit''
   \<and> fst (uploadFile (sample_world ''text/plain'') (sample_request ''notes.txt'' ''text/plain'')
            empty_state)
     = ErrorResponse 400 ''UNSUPPORTED_MEDIA_TYPE''
         ''File type not supported for preview generation''
   \<and> fst (uploadFile (failing_put (\<lambda>k. True) ''timeout'' (sample_world ''audio/mpeg''))
            (sample_request ''song.mp3'' ''audio/mpeg'') empty_state)
     = ErrorResponse 500 ''timeout'' ''Upload failed''
   \<and> fst (uploadFile (failing_insert ''E11000 duplicate key'' (sample_world ''audio/mpeg''))
            (sample_request ''song.mp3'' ''audio/mpeg'') empty_state)
     = ErrorResponse 500 ''E11000 duplicate key'' ''Upload failed''"
proof -
  let ?w = "sample_world ''audio/mpeg''"
  let ?song = "\<lparr>originalname = ''song.mp3'', mimetype = ''audio/mpeg'', size_bytes = 3,
                file_buffer = [1, 2, 3]\<rparr>"
  let ?big = "\<lparr>originalname = ''song.mp3'', mimetype = ''audio/mpeg'', size_bytes = 200000000,
               file_buffer = [1, 2, 3]\<rparr>"
  let ?notes = "\<lparr>originalname = ''notes.txt'', mimetype = ''text/plain'', size_bytes = 3,
                 file_buffer = [1, 2, 3]\<rparr>"
  let ?audio = "\<lparr>meta_mimeType = Some ''audio/mpeg'', meta_width = None, meta_height = None,
                 meta_duration = None\<rparr>"
  let ?text = "\<lparr>meta_mimeType = Some ''text/plain'', meta_width = None, meta_height = None,
                meta_duration = None\<rparr>"
  have a: "fst (uploadFile ?w \<lparr>user_id = None, req_file = None\<rparr> empty_state)
             = ErrorResponse 401 ''UNAUTHORIZED'' ''User authentication required''"
    using uploadFile_error_kinds [where req = "\<lparr>user_id = None, req_file = None\<rparr>" and w = ?w
        and st = empty_state]
    by (simp add: truthy_def)
  have b: "fst (uploadFile ?w \<lparr>user_id = Some ''u1'', req_file = None\<rparr> empty_state)
             = ErrorResponse 400 ''NO_FILE'' ''No file uploaded''"
    using uploadFile_error_kinds [where req = "\<lparr>user_id = Some ''u1'', req_file = None\<rparr>"
        and w = ?w and st = empty_state]
    by (simp add: truthy_def)
  have c: "fst (uploadFile ?w \<lparr>user_id = Some ''u1'', req_file = Some ?big\<rparr> empty_state)
             = ErrorResponse 400 ''FILE_TOO_LARGE'' ''File size exceeds 100MB limit''"
    using uploadFile_error_kinds [where req = "\<lparr>user_id = Some ''u1'', req_file = Some ?big\<rparr>"
        and w = ?w and st = empty_state and f = ?big]
    by (simp add: truthy_def MAX_FILE_SIZE_def)
  have ty_text: "getFileType ''text/plain'' ''notes.txt'' = ''document''"
    by (simp add: getFileType_def startsWith_def)
  have ty_audio: "getFileType ''audio/mpeg'' ''song.mp3'' = ''audio''"
    by (simp add: getFileType_def startsWith_def)
  have d: "fst (uploadFile (sample_world ''text/plain'') (sample_request ''notes.txt'' ''text/plain'')
                  empty_state)
             = ErrorResponse 400 ''UNSUPPORTED_MEDIA_TYPE''
                 ''File type not supported for preview generation''"
    using ty_text
      uploadFile_error_kinds [where req = "sample_request ''notes.txt'' ''text/plain''"
        and w = "sample_world ''text/plain''" and st = empty_state and f = ?notes
        and userId = "''u1''" and meta = ?text]
    by (simp add: sample_request_def sample_world_def sample_extractMediaMetadata
          MAX_FILE_SIZE_def or_else_def)
  have pre: "\<And>w. uploadFile_preview w ''audio'' [1, 2, 3] ''audio/mpeg''
               (''uploads/'' @ ''u1'' @ ''/'' @ hd (js_split CHR ''T'' (now_iso (tool w))))
               (uuidv4 (tool w)) = Inr (None, None, None)"
    by (simp add: uploadFile_preview_def)
  have e: "fst (uploadFile (failing_put (\<lambda>k. True) ''timeout'' ?w)
                  (sample_request ''song.mp3'' ''audio/mpeg'') empty_state)
             = ErrorResponse 500 ''timeout'' ''Upload failed''"
    using ty_audio pre [of "failing_put (\<lambda>k. True) ''timeout'' ?w"]
      uploadFile_error_kinds [where req = "sample_request ''song.mp3'' ''audio/mpeg''"
        and w = "failing_put (\<lambda>k. True) ''timeout'' ?w" and st = empty_state and f = ?song
        and userId = "''u1''" and meta = ?audio and p = "(None, None, None)"
        and msg = "''timeout''"]
    by (simp add: failing_put_def sample_request_def sample_world_def
          sample_extractMediaMetadata sample_config_def MAX_FILE_SIZE_def or_else_def truthy_def)
  have f: "fst (uploadFile (failing_insert ''E11000 duplicate key'' ?w)
                  (sample_request ''song.mp3'' ''audio/mpeg'') empty_state)
             = ErrorResponse 500 ''E11000 duplicate key'' ''Upload failed''"
    using ty_audio pre [of "failing_insert ''E11000 duplicate key'' ?w"]
      uploadFile_error_kinds [where req = "sample_request ''song.mp3'' ''audio/mpeg''"
        and w = "failing_insert ''E11000 duplicate key'' ?w" and st = empty_state and f = ?song
        and userId = "''u1''" and meta = ?audio and p = "(None, None, None)"
        and msg = "''E11000 duplicate key''"]
    by (simp add: failing_insert_def sample_request_def sample_world_def
          sample_extractMediaMetadata sample_config_def sample_s3_def sample_mongo_def
          MAX_FILE_SIZE_def or_else_def truthy_def)
  from a b c d e f show ?thesis by simp
qed

text \<open>
  C5, as stated, makes storage failure and persistence failure two distinct kinds. An object
  store and a metadata store that fail with the same text give the same response.
\<close>

theorem storage_and_persistence_failure_same_response:
  "fst (uploadFile (failing_put (\<lambda>k. True) ''socket hang up'' (sample_world ''audio/mpeg''))
          (sample_request ''song.mp3'' ''audio/mpeg'') empty_state)
     = ErrorResponse 500 ''socket hang up'' ''Upload failed''
   \<and> fst (uploadFile (failing_insert ''socket hang up'' (sample_world ''audio/mpeg''))
          (sample_request ''song.mp3'' ''audio/mpeg'') empty_state)
     = ErrorResponse 500 ''socket hang up'' ''Upload failed''"
  by (simp add: failing_put_def failing_insert_def sample_defs upload_defs Let_def)

subsection \<open>Bulk delete\<close>

lemma show_nat_100: "show_nat MAX_BULK_DELETE = ''100''"
  by (simp add: MAX_BULK_DELETE_def)

text \<open>
  C6. For an authenticated requester, a batch of more than 100 ids is answered with the 400
  response \<^verbatim>\<open>TOO_MANY_FILES\<close> whatever the ids are: the answer does not depend on their
  validity, and the state is untouched, so nothing was looked up or deleted. A batch of at most
  100 ids with an invalid one is answered with \<^verbatim>\<open>INVALID_FILE_IDS\<close>, listing the invalid ids,
  and again the state is untouched.
\<close>

theorem bulkDeleteFiles_rejects_batch:
  assumes "user = Some userId" and "userId \<noteq> []"
  shows "(100 < length ids \<longrightarrow>
            bulkDeleteFiles w user (Some ids) st =
              (ErrorResponse 400 ''TOO_MANY_FILES'' ''Maximum 100 files can be deleted at once'',
               st))
         \<and> (ids \<noteq> [] \<and> length ids \<le> 100 \<and> (\<exists>i \<in> set ids. \<not> isValid (mongo w) i) \<longrightarrow>
            bulkDeleteFiles w user (Some ids) st =
              (InvalidIds 400 ''INVALID_FILE_IDS'' ''Some file IDs are invalid''
                 (filter (\<lambda>i. \<not> isValid (mongo w) i) ids), st))"
proof (intro conjI impI)
  assume "100 < length ids"
  then show "bulkDeleteFiles w user (Some ids) st =
              (ErrorResponse 400 ''TOO_MANY_FILES'' ''Maximum 100 files can be deleted at once'',
               st)"
    using assms show_nat_100 by (auto simp: bulkDeleteFiles_def MAX_BULK_DELETE_def)
next
  assume a: "ids \<noteq> [] \<and> length ids \<le> 100 \<and> (\<exists>i \<in> set ids. \<not> isValid (mongo w) i)"
  then have "length (filter (isValid (mongo w)) ids) < length ids"
    by (auto intro: length_filter_less)
  then show "bulkDeleteFiles w user (Some ids) st =
              (InvalidIds 400 ''INVALID_FILE_IDS'' ''Some file IDs are invalid''
                 (filter (\<lambda>i. \<not> isValid (mongo w) i) ids), st)"
    using assms a by (auto simp: bulkDeleteFiles_def MAX_BULK_DELETE_def Let_def)
qed

theorem bulkDeleteFiles_rejects_batch_witness:
  "bulkDeleteFiles (sample_world ''image/png'') (Some ''u1'')
     (Some (replicate 101 ''65a000000000000000000001'')) stored_state
     = (ErrorResponse 400 ''TOO_MANY_FILES'' ''Maximum 100 files can be deleted at once'',
        stored_state)
   \<and> bulkDeleteFiles (sample_world ''image/png'') (Some ''u1'')
       (Some [''65a000000000000000000001'', ''not-an-id'']) stored_state
     = (InvalidIds 400 ''INVALID_FILE_IDS'' ''Some file IDs are invalid'' [''not-an-id''],
        stored_state)"
proof -
  have u: "Some ''u1'' = Some ''u1''" and n: "''u1'' \<noteq> []" by simp_all
  have v: "isValid (mongo (sample_world ''image/png'')) = (\<lambda>s. length s = 24)"
    by (simp add: sample_world_def sample_mongo_def)
  have a: "bulkDeleteFiles (sample_world ''image/png'') (Some ''u1'')
     (Some (replicate 101 ''65a000000000000000000001'')) stored_state
     = (ErrorResponse 400 ''TOO_MANY_FILES'' ''Maximum 100 files can be deleted at once'',
        stored_state)"
    using bulkDeleteFiles_rejects_batch [OF u n,
        of "replicate 101 ''65a000000000000000000001''" "sample_world ''image/png''" stored_state]
    by simp
  have b: "bulkDeleteFiles (sample_world ''image/png'') (Some ''u1'')
       (Some [''65a000000000000000000001'', ''not-an-id'']) stored_state
     = (InvalidIds 400 ''INVALID_FILE_IDS'' ''Some file IDs are invalid'' [''not-an-id''],
        stored_state)"
    using bulkDeleteFiles_rejects_batch [OF u n,
        of "[''65a000000000000000000001'', ''not-an-id'']" "sample_world ''image/png''"
           stored_state]
    by (simp add: v)
  from a b show ?thesis by simp
qed

text \<open>The chunked deletion of objects leaves the collection alone.\<close>

declare delete_chunks.simps [simp del]

lemma delete_chunks_files: "files (snd (delete_chunks w ks i acc st)) = files st"
proof (induction w ks i acc st rule: delete_chunks.induct)
  case (1 w allS3Keys i deleteResults st)
  let ?chunk = "take chunkSize (drop i allS3Keys)"
  let ?bucket = "S3_BUCKET_NAME (config w)"
  show ?case
  proof (cases "i < length allS3Keys")
    case False
    then show ?thesis by (subst delete_chunks.simps) simp
  next
    case True
    show ?thesis
    proof (cases "s3_batch_error (s3 w) ?chunk")
      case None
      let ?deleted = "filter (\<lambda>k. s3_delete_error (s3 w) k = None) ?chunk"
      let ?st = "log_event (S3DeleteObjects ?bucket ?chunk True)
                   (st\<lparr>objects := fold (\<lambda>k m. m((?bucket, k) := None)) ?deleted (objects st)\<rparr>)"
      have "delete_chunks w allS3Keys i deleteResults st
              = delete_chunks w allS3Keys (i + chunkSize) (deleteResults @ [?deleted]) ?st"
        by (subst delete_chunks.simps) (simp add: True None Let_def)
      moreover have "files (snd (delete_chunks w allS3Keys (i + chunkSize)
                                   (deleteResults @ [?deleted]) ?st)) = files ?st"
        by (rule "1.IH"(1) [OF True refl refl None refl])
      moreover have "files ?st = files st" by (simp add: log_event_def)
      ultimately show ?thesis by simp
    next
      case (Some msg)
      let ?st = "log_event (S3DeleteObjects ?bucket ?chunk False) st"
      have "delete_chunks w allS3Keys i deleteResults st
              = delete_chunks w allS3Keys (i + chunkSize) deleteResults ?st"
        by (subst delete_chunks.simps) (simp add: True Some Let_def)
      moreover have "files (snd (delete_chunks w allS3Keys (i + chunkSize) deleteResults ?st))
                       = files ?st"
        by (rule "1.IH"(2) [OF True refl refl Some])
      moreover have "files ?st = files st" by (simp add: log_event_def)
      ultimately show ?thesis by simp
    qed
  qed
qed

lemma set_found_ids:
  "set (concat (map (\<lambda>f. case oid f of None \<Rightarrow> [] | Some i \<Rightarrow> [i]) gs))
     = {i. \<exists>g \<in> set gs. oid g = Some i}"
  by (induction gs) (auto split: option.splits)

lemma owned_among_found:
  assumes "f \<in> set fs"
  shows "owned_among u (concat (map (\<lambda>f. case oid f of None \<Rightarrow> [] | Some i \<Rightarrow> [i])
                                 (filter (owned_among u ids) fs))) f
         = owned_among u ids f"
proof (cases "oid f")
  case None
  then show ?thesis by (simp add: owned_among_def)
next
  case (Some i)
  show ?thesis
  proof (cases "uploadedBy f = Some u")
    case False
    then show ?thesis by (simp add: owned_among_def)
  next
    case True
    let ?found_ids = "concat (map (\<lambda>f. case oid f of None \<Rightarrow> [] | Some i \<Rightarrow> [i])
                                (filter (owned_among u ids) fs))"
    have "i \<in> set ?found_ids \<longleftrightarrow> i \<in> set ids"
    proof
      assume "i \<in> set ?found_ids"
      then obtain g where "owned_among u ids g" and "oid g = Some i"
        unfolding set_found_ids by auto
      then show "i \<in> set ids" by (simp add: owned_among_def)
    next
      assume "i \<in> set ids"
      then have "owned_among u ids f" using Some True by (simp add: owned_among_def)
      then have "\<exists>g \<in> set (filter (owned_among u ids) fs). oid g = Some i"
        using assms Some by auto
      then show "i \<in> set ?found_ids"
        unfolding set_found_ids by simp
    qed
    then show ?thesis
      using Some True by (simp add: owned_among_def)
  qed
qed

text \<open>
  C7. For a valid batch with at least one record of the requester among its ids, and a metadata
  store that answers, the response is the 200 one; its \<^verbatim>\<open>deletedCount\<close> is the number of
  records found for the requester, whatever the number of ids; the records listed are those
  found; and the collection afterwards is the one before without the requester's records named
  by the batch. Ids that name no record, or a record of somebody else, change nothing.
\<close>

theorem bulkDeleteFiles_removes_owned_only:
  assumes "user = Some userId" and "userId \<noteq> []"
    and "ids \<noteq> []" and "length ids \<le> 100" and "\<forall>i \<in> set ids. isValid (mongo w) i"
    and "find_error (mongo w) = None" and "delete_error (mongo w) = None"
    and "found = filter (owned_among userId (map (ObjectId (mongo w)) ids)) (files st)"
    and "found \<noteq> []"
  shows "\<exists>n. fst (bulkDeleteFiles w user (Some ids) st) =
               BulkDeleted (show_nat (length found) @ '' files deleted successfully'')
                 (length found) n (map summary found)
             \<and> files (snd (bulkDeleteFiles w user (Some ids) st)) =
               filter (\<lambda>f. \<not> owned_among userId (map (ObjectId (mongo w)) ids) f) (files st)"
proof -
  let ?keys = "concat (map getS3KeysForFile found)"
  let ?st0 = "log_event (DbFind True) st"
  let ?target = "owned_among userId (concat (map (\<lambda>f. case oid f of None \<Rightarrow> []
                                                          | Some i \<Rightarrow> [i]) found))"
  obtain deleteResults st1 where dc: "delete_chunks w ?keys 0 [] ?st0 = (deleteResults, st1)"
    by (cases "delete_chunks w ?keys 0 [] ?st0")
  have f1: "files st1 = files st"
    using delete_chunks_files [of w ?keys 0 "[]" ?st0] dc by (simp add: log_event_def)
  have valid: "filter (isValid (mongo w)) ids = ids"
    using assms(5) by simp
  have same: "filter ?target (files st) = found"
    unfolding assms(8)
    by (rule trans [OF filter_cong [OF refl owned_among_found]]) simp_all
  have rest: "filter (\<lambda>f. \<not> ?target f) (files st)
              = filter (\<lambda>f. \<not> owned_among userId (map (ObjectId (mongo w)) ids) f) (files st)"
    unfolding assms(8) by (rule filter_cong) (simp_all add: owned_among_found)
  have tr: "bulkDeleteFiles_try w userId ids st =
          (Inr (BulkDeleted (show_nat (length found) @ '' files deleted successfully'')
                  (length found) (foldl (\<lambda>acc result. acc + length result) 0 deleteResults)
                  (map summary found)),
           log_event (DbDeleteMany True)
             (st1\<lparr>files := filter (\<lambda>f. \<not> owned_among userId (map (ObjectId (mongo w)) ids) f)
                               (files st)\<rparr>))"
    using assms(6,7,9) dc f1 same rest assms(8)
    by (simp add: bulkDeleteFiles_try_def Let_def log_event_def)
  have "bulkDeleteFiles w user (Some ids) st =
          (BulkDeleted (show_nat (length found) @ '' files deleted successfully'')
                  (length found) (foldl (\<lambda>acc result. acc + length result) 0 deleteResults)
                  (map summary found),
           log_event (DbDeleteMany True)
             (st1\<lparr>files := filter (\<lambda>f. \<not> owned_among userId (map (ObjectId (mongo w)) ids) f)
                               (files st)\<rparr>))"
    using assms(1-4) valid tr
    by (simp add: bulkDeleteFiles_def MAX_BULK_DELETE_def Let_def)
  then show ?thesis by (simp add: log_event_def)
qed

theorem bulkDeleteFiles_removes_owned_only_witness:
  "\<exists>n. fst (bulkDeleteFiles (sample_world ''image/png'') (Some ''u1'')
              (Some [''65a000000000000000000001'', ''65a000000000000000000002'',
                     ''65a000000000000000000003'']) stored_state)
          = BulkDeleted ''1 files deleted successfully'' 1 n
              [summary (sample_record ''65a000000000000000000001'' ''u1'' ''Cat.png'')]
        \<and> files (snd (bulkDeleteFiles (sample_world ''image/png'') (Some ''u1'')
              (Some [''65a000000000000000000001'', ''65a000000000000000000002'',
                     ''65a000000000000000000003'']) stored_state))
          = [sample_record ''65a000000000000000000002'' ''u2'' ''dog.png'']"
proof -
  let ?w = "sample_world ''image/png''"
  let ?ids = "[''65a000000000000000000001'', ''65a000000000000000000002'',
               ''65a000000000000000000003'']"
  let ?r1 = "sample_record ''65a000000000000000000001'' ''u1'' ''Cat.png''"
  let ?r2 = "sample_record ''65a000000000000000000002'' ''u2'' ''dog.png''"
  have m: "mongo ?w = sample_mongo" by (simp add: sample_world_def)
  have 1: "Some ''u1'' = Some ''u1''" and 2: "''u1'' \<noteq> []" by simp_all
  have 3: "?ids \<noteq> []" and 4: "length ?ids \<le> 100" by simp_all
  have 5: "\<forall>i \<in> set ?ids. isValid (mongo ?w) i" by (simp add: m sample_mongo_def)
  have 6: "find_error (mongo ?w) = None" and 7: "delete_error (mongo ?w) = None"
    by (simp_all add: m sample_mongo_def)
  have o1: "owned_among ''u1'' ?ids ?r1" and o2: "\<not> owned_among ''u1'' ?ids ?r2"
    by (simp_all add: owned_among_def sample_record_def)
  have 8: "[?r1] = filter (owned_among ''u1'' (map (ObjectId (mongo ?w)) ?ids)) (files stored_state)"
    using o1 o2 by (simp add: m sample_mongo_def stored_state_def)
  have 9: "[?r1] \<noteq> []" by simp
  have rest: "filter (\<lambda>f. \<not> owned_among ''u1'' (map (ObjectId (mongo ?w)) ?ids) f)
                (files stored_state) = [?r2]"
    using o1 o2 by (simp add: m sample_mongo_def stored_state_def)
  show ?thesis
    using bulkDeleteFiles_removes_owned_only [OF 1 2 3 4 5 6 7 8 9] rest by simp
qed

subsection \<open>Single delete\<close>

lemma fold_delete_object_trace:
  "trace (fold (delete_object w) ks st) =
     trace st @ map (\<lambda>k. S3DeleteObject (S3_COMP_BUCKET_BKT (config w)) k
                           (s3_delete_error (s3 w) k = None)) ks"
  by (induction ks arbitrary: st)
     (auto simp: delete_object_def log_event_def Let_def split: option.splits)

lemma fold_delete_object_files: "files (fold (delete_object w) ks st) = files st"
  by (induction ks arbitrary: st)
     (auto simp: delete_object_def log_event_def Let_def split: option.splits)

text \<open>
  C9. For a record found for the requester, every reconstructed key gets its delete command, in
  order, whether or not an earlier one failed; the delete of the record comes after all of them;
  and the record is removed whatever the object store answered. Nothing is assumed about the
  objects present, so a preview that is already absent does not matter.
\<close>

theorem deleteFile_tolerates_object_failures:
  assumes "user = Some userId" and "userId \<noteq> []"
    and "fileIdParam = Some fileId" and "fileId \<noteq> []" and "isValid (mongo w) fileId"
    and "find_error (mongo w) = None" and "delete_error (mongo w) = None"
    and "find (\<lambda>g. oid g = Some (ObjectId (mongo w) fileId) \<and> uploadedBy g = Some userId)
           (files st) = Some f"
  shows "fst (deleteFile w user fileIdParam st) =
           FileDeleted ''File deleted successfully'' (oid f) (filename f) (s3Key f)
             (getS3KeysForFile f)
         \<and> trace (snd (deleteFile w user fileIdParam st)) =
             trace st @ [DbFindOne True]
               @ map (\<lambda>k. S3DeleteObject (S3_COMP_BUCKET_BKT (config w)) k
                             (s3_delete_error (s3 w) k = None)) (getS3KeysForFile f)
               @ [DbDeleteOne True]
         \<and> files (snd (deleteFile w user fileIdParam st)) =
             delete_one (\<lambda>g. oid g = Some (ObjectId (mongo w) fileId) \<and> uploadedBy g = Some userId)
               (files st)"
proof -
  let ?owned = "\<lambda>g. oid g = Some (ObjectId (mongo w) fileId) \<and> uploadedBy g = Some userId"
  let ?st0 = "log_event (DbFindOne True) st"
  let ?st1 = "fold (delete_object w) (getS3KeysForFile f) ?st0"
  let ?st2 = "log_event (DbDeleteOne True) (?st1\<lparr>files := delete_one ?owned (files ?st1)\<rparr>)"
  have found: "find ?owned (files ?st0) = Some f"
    using assms(8) by (simp add: log_event_def)
  have tr: "deleteFile_try w userId fileId st =
          (Inr (FileDeleted ''File deleted successfully'' (oid f) (filename f) (s3Key f)
                  (getS3KeysForFile f)), ?st2)"
    using assms(6,7) found by (simp add: deleteFile_try_def Let_def)
  have del: "deleteFile w user fileIdParam st =
          (FileDeleted ''File deleted successfully'' (oid f) (filename f) (s3Key f)
             (getS3KeysForFile f), ?st2)"
    using assms(1-5) tr by (simp add: deleteFile_def truthy_def or_else_def)
  have "trace ?st2 = trace st @ [DbFindOne True]
               @ map (\<lambda>k. S3DeleteObject (S3_COMP_BUCKET_BKT (config w)) k
                             (s3_delete_error (s3 w) k = None)) (getS3KeysForFile f)
               @ [DbDeleteOne True]"
    by (simp add: log_event_def fold_delete_object_trace)
  moreover have "files ?st2 = delete_one ?owned (files st)"
    by (simp add: log_event_def fold_delete_object_files)
  ultimately show ?thesis using del by simp
qed


theorem deleteFile_tolerates_object_failures_witness:
  "fst (deleteFile
          (failing_delete (\<lambda>k. k = ''uploads/u1/2024-01-01/preview-123e4567.jpg'') ''NoSuchKey''
             (sample_world ''image/png''))
          (Some ''u1'') (Some ''65a000000000000000000001'') stored_state)
     = FileDeleted ''File deleted successfully'' (Some ''65a000000000000000000001'') ''Cat.png''
         ''uploads/u1/2024-01-01/123e4567-e89b-42d3-a456-426614174000-Cat.png''
         [''uploads/u1/2024-01-01/123e4567-e89b-42d3-a456-426614174000-Cat.png'',
          ''uploads/u1/2024-01-01/preview-123e4567.jpg'']
   \<and> trace (snd (deleteFile
          (failing_delete (\<lambda>k. k = ''uploads/u1/2024-01-01/preview-123e4567.jpg'') ''NoSuchKey''
             (sample_world ''image/png''))
          (Some ''u1'') (Some ''65a000000000000000000001'') stored_state))
     = [DbFindOne True,
        S3DeleteObject ''media''
          ''uploads/u1/2024-01-01/123e4567-e89b-42d3-a456-426614174000-Cat.png'' True,
        S3DeleteObject ''media'' ''uploads/u1/2024-01-01/preview-123e4567.jpg'' False,
        DbDeleteOne True]
   \<and> files (snd (deleteFile
          (failing_delete (\<lambda>k. k = ''uploads/u1/2024-01-01/preview-123e4567.jpg'') ''NoSuchKey''
             (sample_world ''image/png''))
          (Some ''u1'') (Some ''65a000000000000000000001'') stored_state))
     = [sample_record ''65a000000000000000000002'' ''u2'' ''dog.png'']"
proof -
  let ?w = "failing_delete (\<lambda>k. k = ''uploads/u1/2024-01-01/preview-123e4567.jpg'') ''NoSuchKey''
             (sample_world ''image/png'')"
  let ?r1 = "sample_record ''65a000000000000000000001'' ''u1'' ''Cat.png''"
  let ?r2 = "sample_record ''65a000000000000000000002'' ''u2'' ''dog.png''"
  let ?owned = "\<lambda>g. oid g = Some (ObjectId (mongo ?w) ''65a000000000000000000001'')
                     \<and> uploadedBy g = Some ''u1''"
  have m: "mongo ?w = sample_mongo" and c: "config ?w = sample_config"
    by (simp_all add: failing_delete_def sample_world_def)
  have 1: "Some ''u1'' = Some ''u1''" and 2: "''u1'' \<noteq> []"
    and 3: "Some ''65a000000000000000000001'' = Some ''65a000000000000000000001''"
    and 4: "''65a000000000000000000001'' \<noteq> []" by simp_all
  have 5: "isValid (mongo ?w) ''65a000000000000000000001''" by (simp add: m sample_mongo_def)
  have 6: "find_error (mongo ?w) = None" and 7: "delete_error (mongo ?w) = None"
    by (simp_all add: m sample_mongo_def)
  have o1: "?owned ?r1" and o2: "\<not> ?owned ?r2"
    by (simp_all add: m sample_mongo_def sample_record_def)
  have 8: "find ?owned (files stored_state) = Some ?r1"
    using o1 by (simp add: stored_state_def)
  have keys: "getS3KeysForFile ?r1 =
         [''uploads/u1/2024-01-01/123e4567-e89b-42d3-a456-426614174000-Cat.png'',
          ''uploads/u1/2024-01-01/preview-123e4567.jpg'']"
    by (simp add: getS3KeysForFile_def sample_record_def truthy_def Let_def)
  have del: "delete_one ?owned (files stored_state) = [?r2]"
    using o1 by (simp add: stored_state_def)
  have r: "oid ?r1 = Some ''65a000000000000000000001''" "filename ?r1 = ''Cat.png''"
    "s3Key ?r1 = ''uploads/u1/2024-01-01/123e4567-e89b-42d3-a456-426614174000-Cat.png''"
    by (simp_all add: sample_record_def)
  have t: "trace stored_state = []" by (simp add: stored_state_def)
  have e: "s3_delete_error (s3 ?w) = (\<lambda>k. if k = ''uploads/u1/2024-01-01/preview-123e4567.jpg''
                                            then Some ''NoSuchKey'' else None)"
    by (simp add: failing_delete_def)
  have b: "S3_COMP_BUCKET_BKT (config ?w) = ''media''" by (simp add: c sample_config_def)
  show ?thesis
    using deleteFile_tolerates_object_failures [OF 1 2 3 4 5 6 7 8]
    by (simp add: keys del r t e b)
qed

subsection \<open>Search\<close>

text \<open>
  No stored document has a field \<^verbatim>\<open>originalName\<close>, the one the text query is matched
  against: a search with a text query matches no record.
\<close>

lemma document_originalName: "document f ''originalName'' = None"
  by (simp add: document_def split: option.splits)

lemma searchFiles_text_query_no_match:
  assumes "truthy (q_query q)"
  shows "\<not> matches m (searchFiles_filter m userId q) f"
  using assms by (simp add: matches_def searchFiles_filter_def document_originalName)

text \<open>
  C8. A text query should match the records whose file name contains the text, letter case
  ignored. The filter puts the regular expression on \<^verbatim>\<open>originalName\<close>, while the name is
  stored under \<^verbatim>\<open>filename\<close>. With a store whose regular expression test is the
  case-insensitive containment itself: the record \<^verbatim>\<open>Cat.png\<close> of the requester is returned
  without a text query, contains \<^verbatim>\<open>cat\<close>, and is not returned for the query \<^verbatim>\<open>cat\<close>.
\<close>

theorem searchFiles_text_query_finds_nothing:
  "contains_ignoring_case ''cat''
     (filename (sample_record ''65a000000000000000000001'' ''u1'' ''Cat.png''))
   \<and> searchFiles_matching (sample_world ''image/png'') ''u1''
         \<lparr>q_query = None, q_type = None, q_mimeType = None, q_minSize = None, q_maxSize = None,
          q_startDate = None, q_endDate = None\<rparr> stored_state
       = [sample_record ''65a000000000000000000001'' ''u1'' ''Cat.png'']
   \<and> searchFiles_matching (sample_world ''image/png'') ''u1'' (text_query ''cat'') stored_state
       = []"
proof -
  have "contains_ignoring_case ''cat''
     (filename (sample_record ''65a000000000000000000001'' ''u1'' ''Cat.png''))"
    by (simp add: contains_ignoring_case_def sample_record_def toLowerCase_def lower_char_def
          upt_rec)
  moreover have "searchFiles_matching (sample_world ''image/png'') ''u1''
         \<lparr>q_query = None, q_type = None, q_mimeType = None, q_minSize = None, q_maxSize = None,
          q_startDate = None, q_endDate = None\<rparr> stored_state
       = [sample_record ''65a000000000000000000001'' ''u1'' ''Cat.png'']"
    by (simp add: searchFiles_matching_def searchFiles_filter_def matches_def stored_state_def
          sample_record_def document_def truthy_def truthy_num_def)
  moreover have "searchFiles_matching (sample_world ''image/png'') ''u1'' (text_query ''cat'')
                   stored_state = []"
    by (simp add: searchFiles_matching_def text_query_def truthy_def
          searchFiles_text_query_no_match)
  ultimately show ?thesis by simp
qed

subsection \<open>Key reconstruction, for every upload\<close>

text \<open>Splitting on a character and joining again; the first part stops at the separator.\<close>

lemma js_split_nonempty: "js_split c s \<noteq> []"
  by (induction s) (auto split: list.splits)

lemma hd_js_split: "hd (js_split c s) = takeWhile (\<lambda>x. x \<noteq> c) s"
  by (induction s) (auto split: list.splits simp: js_split_nonempty)

lemma js_split_snoc:
  "c \<notin> set t \<Longrightarrow> js_split c (s @ c # t) = js_split c s @ [t]"
proof (induction s)
  case Nil
  have "js_split c t = [t]" using Nil
    by (induction t) (auto split: list.splits)
  then show ?case by simp
next
  case (Cons x s)
  then show ?case
    by (cases "js_split c s") (auto simp: js_split_nonempty)
qed

lemma js_join_split: "js_join [c] (js_split c s) = s"
proof (induction s)
  case Nil
  then show ?case by simp
next
  case (Cons x s)
  show ?case
  proof (cases "x = c")
    case True
    then show ?thesis
      using Cons by (cases "js_split c s") (auto simp: js_split_nonempty)
  next
    case False
    obtain w ws where sp: "js_split c s = w # ws"
      using js_split_nonempty [of c s] by (cases "js_split c s") auto
    then show ?thesis
      using Cons False by (cases ws) auto
  qed
qed

text \<open>
  For a key of the shape \<^verbatim>\<open>base/fileId-name\<close>, without \<^verbatim>\<open>/\<close> in the file id and the name,
  the delete path finds the base path and the file id cut at its first \<^verbatim>\<open>-\<close>. A file id that
  contains \<^verbatim>\<open>-\<close> and no \<^verbatim>\<open>p\<close>, as every version 4 UUID, is therefore never recovered whole:
  neither the preview key nor the poster key of the upload is among the reconstructed keys.
\<close>

lemma getS3KeysForFile_of_upload_key:
  assumes "s3Key f = baseKey @ ''/'' @ fileId @ ''-'' @ name"
    and "CHR ''/'' \<notin> set fileId" and "CHR ''/'' \<notin> set name"
  shows "set (getS3KeysForFile f) \<subseteq>
           {s3Key f,
            baseKey @ ''/preview-'' @ takeWhile (\<lambda>x. x \<noteq> CHR ''-'') fileId @ ''.jpg'',
            baseKey @ ''/poster-'' @ takeWhile (\<lambda>x. x \<noteq> CHR ''-'') fileId @ ''.jpg''}"
proof -
  have k: "s3Key f = baseKey @ CHR ''/'' # (fileId @ ''-'' @ name)"
    using assms(1) by simp
  have n: "CHR ''/'' \<notin> set (fileId @ ''-'' @ name)"
    using assms(2,3) by simp
  have parts: "js_split CHR ''/'' (s3Key f) = js_split CHR ''/'' baseKey @ [fileId @ ''-'' @ name]"
    unfolding k by (rule js_split_snoc [OF n])
  have base: "js_join ''/'' (butlast (js_split CHR ''/'' (s3Key f))) = baseKey"
    using parts js_join_split [of "CHR ''/''" baseKey] by simp
  have fid: "hd (js_split CHR ''-'' (last (js_split CHR ''/'' (s3Key f))))
               = takeWhile (\<lambda>x. x \<noteq> CHR ''-'') fileId"
    using parts by (simp add: hd_js_split takeWhile_tail)
  show ?thesis
    using base fid by (auto simp: getS3KeysForFile_def Let_def)
qed

lemma written_derivative_not_reconstructed:
  assumes "s3Key f = baseKey @ ''/'' @ fileId @ ''-'' @ name"
    and "CHR ''/'' \<notin> set fileId" and "CHR ''/'' \<notin> set name"
    and "CHR ''-'' \<in> set fileId" and "CHR ''p'' \<notin> set fileId"
    and "role = ''preview-'' \<or> role = ''poster-''"
  shows "baseKey @ ''/'' @ role @ fileId @ ''.jpg'' \<notin> set (getS3KeysForFile f)"
proof -
  let ?short = "takeWhile (\<lambda>x. x \<noteq> CHR ''-'') fileId"
  have len: "length ?short < length fileId"
    using assms(4) by (induction fileId) auto
  have "fileId \<noteq> []" using assms(4) by auto
  then obtain x xs where fx: "fileId = x # xs" by (cases fileId) auto
  then have xp: "x \<noteq> CHR ''p''" using assms(5) by auto
  have a: "baseKey @ ''/'' @ role @ fileId @ ''.jpg'' \<noteq> s3Key f"
    using assms(1,6) fx xp by auto
  have b: "baseKey @ ''/'' @ role @ fileId @ ''.jpg'' \<noteq> baseKey @ ''/preview-'' @ ?short @ ''.jpg''"
    using len assms(6) by auto
  have c: "baseKey @ ''/'' @ role @ fileId @ ''.jpg'' \<noteq> baseKey @ ''/poster-'' @ ?short @ ''.jpg''"
    using len assms(6) by auto
  show ?thesis
    using getS3KeysForFile_of_upload_key [OF assms(1-3)] a b c by auto
qed

text \<open>
  The same for the record of any successful upload: the derivative keys that \<^verbatim>\<open>uploadFile\<close>
  forms for it are not among the keys that \<^verbatim>\<open>getS3KeysForFile\<close> rebuilds from it.
\<close>

lemma uploadFile_created_s3Key:
  assumes "uploadFile w req st = (UploadCreated doc i, st')"
  obtains userId f where "user_id req = Some userId" and "req_file req = Some f"
    and "s3Key doc = (''uploads/'' @ userId @ ''/'' @ hd (js_split CHR ''T'' (now_iso (tool w))))
                       @ ''/'' @ uuidv4 (tool w) @ ''-'' @ originalname f"
proof -
  from assms obtain userId f where u: "user_id req = Some userId" and f: "req_file req = Some f"
    and t: "uploadFile_try w userId f
           (''uploads/'' @ userId @ ''/'' @ hd (js_split CHR ''T'' (now_iso (tool w))))
           (uuidv4 (tool w))
           (''uploads/'' @ userId @ ''/'' @ hd (js_split CHR ''T'' (now_iso (tool w))) @ ''/''
              @ uuidv4 (tool w) @ ''-'' @ originalname f) st
         = (Inr (UploadCreated doc i), st')"
    by (rule uploadFile_Inr_try)
  from t have "s3Key doc = ''uploads/'' @ userId @ ''/'' @ hd (js_split CHR ''T'' (now_iso (tool w)))
                 @ ''/'' @ uuidv4 (tool w) @ ''-'' @ originalname f"
    by (rule uploadFile_try_Created) (simp add: uploadFile_doc_def)
  with u f show ?thesis by (intro that) simp_all
qed

lemma uploaded_derivative_key_not_reconstructed:
  assumes "uploadFile w req st = (UploadCreated doc i, st')"
    and "user_id req = Some userId" and "req_file req = Some f"
    and "CHR ''/'' \<notin> set (originalname f)"
    and "CHR ''/'' \<notin> set (uuidv4 (tool w))" and "CHR ''-'' \<in> set (uuidv4 (tool w))"
    and "CHR ''p'' \<notin> set (uuidv4 (tool w))"
    and "role = ''preview-'' \<or> role = ''poster-''"
  shows "(''uploads/'' @ userId @ ''/'' @ hd (js_split CHR ''T'' (now_iso (tool w))))
           @ ''/'' @ role @ uuidv4 (tool w) @ ''.jpg'' \<notin> set (getS3KeysForFile doc)"
proof -
  from assms(1) obtain userId' f' where "user_id req = Some userId'" and "req_file req = Some f'"
    and "s3Key doc = (''uploads/'' @ userId' @ ''/'' @ hd (js_split CHR ''T'' (now_iso (tool w))))
                       @ ''/'' @ uuidv4 (tool w) @ ''-'' @ originalname f'"
    by (rule uploadFile_created_s3Key)
  with assms(2,3) have k: "s3Key doc =
      (''uploads/'' @ userId @ ''/'' @ hd (js_split CHR ''T'' (now_iso (tool w))))
        @ ''/'' @ uuidv4 (tool w) @ ''-'' @ originalname f"
    by simp
  show ?thesis
    by (rule written_derivative_not_reconstructed [OF k assms(5) assms(4) assms(6) assms(7) assms(8)])
qed

end
